theory Spec2Isabelle
  imports Complex_Main
begin

section \<open>Numbers\<close>

text \<open>
  A JavaScript number is an IEEE binary64 value: a finite double, which is a real number,
  or one of \<^verbatim>\<open>Infinity\<close>, \<^verbatim>\<open>-Infinity\<close> and \<^verbatim>\<open>NaN\<close>. The sign of a zero is not
  modelled: every zero is \<^verbatim>\<open>+0\<close>.
\<close>

datatype jsnum = Num real | PosInf | NegInf | NaN

text \<open>
  An arithmetic operator computes the exact result of two finite operands and rounds it to
  a double, or to an infinity when it overflows. The rounding function is taken as a field
  of the runtime, together with \<^verbatim>\<open>Math.tan\<close> and \<^verbatim>\<open>Math.sqrt\<close>, whose results the
  language leaves to the implementation. Every definition that computes with numbers
  takes the runtime as its first argument, and what is proved for every runtime holds for
  the doubles of a real engine.
\<close>

record runtime =
  rnd :: "real \<Rightarrow> jsnum"
  Math_tan :: "jsnum \<Rightarrow> jsnum"
  Math_sqrt :: "jsnum \<Rightarrow> jsnum"

fun js_neg :: "jsnum \<Rightarrow> jsnum" where
  "js_neg (Num a) = Num (- a)"
| "js_neg PosInf = NegInf"
| "js_neg NegInf = PosInf"
| "js_neg NaN = NaN"

fun js_add :: "runtime \<Rightarrow> jsnum \<Rightarrow> jsnum \<Rightarrow> jsnum" where
  "js_add R (Num a) (Num b) = rnd R (a + b)"
| "js_add R NaN y = NaN"
| "js_add R x NaN = NaN"
| "js_add R PosInf NegInf = NaN"
| "js_add R NegInf PosInf = NaN"
| "js_add R PosInf y = PosInf"
| "js_add R NegInf y = NegInf"
| "js_add R x PosInf = PosInf"
| "js_add R x NegInf = NegInf"

definition js_sub :: "runtime \<Rightarrow> jsnum \<Rightarrow> jsnum \<Rightarrow> jsnum" where
  "js_sub R x y = js_add R x (js_neg y)"

fun js_mul :: "runtime \<Rightarrow> jsnum \<Rightarrow> jsnum \<Rightarrow> jsnum" where
  "js_mul R (Num a) (Num b) = rnd R (a * b)"
| "js_mul R NaN y = NaN"
| "js_mul R x NaN = NaN"
| "js_mul R (Num a) PosInf = (if a = 0 then NaN else if 0 < a then PosInf else NegInf)"
| "js_mul R (Num a) NegInf = (if a = 0 then NaN else if 0 < a then NegInf else PosInf)"
| "js_mul R PosInf (Num b) = (if b = 0 then NaN else if 0 < b then PosInf else NegInf)"
| "js_mul R NegInf (Num b) = (if b = 0 then NaN else if 0 < b then NegInf else PosInf)"
| "js_mul R PosInf PosInf = PosInf"
| "js_mul R PosInf NegInf = NegInf"
| "js_mul R NegInf PosInf = NegInf"
| "js_mul R NegInf NegInf = PosInf"

fun js_div :: "runtime \<Rightarrow> jsnum \<Rightarrow> jsnum \<Rightarrow> jsnum" where
  "js_div R (Num a) (Num b) =
     (if b = 0 then (if a = 0 then NaN else if 0 < a then PosInf else NegInf)
      else rnd R (a / b))"
| "js_div R NaN y = NaN"
| "js_div R x NaN = NaN"
| "js_div R (Num a) PosInf = Num 0"
| "js_div R (Num a) NegInf = Num 0"
| "js_div R PosInf (Num b) = (if 0 \<le> b then PosInf else NegInf)"
| "js_div R NegInf (Num b) = (if 0 \<le> b then NegInf else PosInf)"
| "js_div R PosInf y = NaN"
| "js_div R NegInf y = NaN"

text \<open>The comparison \<^verbatim>\<open><\<close>, which is false whenever an operand is \<^verbatim>\<open>NaN\<close>.\<close>

fun js_lt :: "jsnum \<Rightarrow> jsnum \<Rightarrow> bool" where
  "js_lt (Num a) (Num b) = (a < b)"
| "js_lt NaN y = False"
| "js_lt x NaN = False"
| "js_lt x NegInf = False"
| "js_lt PosInf y = False"
| "js_lt NegInf y = True"
| "js_lt x PosInf = True"

text \<open>A number is truthy unless it is zero or \<^verbatim>\<open>NaN\<close>.\<close>

definition truthy :: "jsnum \<Rightarrow> bool" where
  "truthy x \<longleftrightarrow> x \<noteq> Num 0 \<and> x \<noteq> NaN"

text \<open>\<^verbatim>\<open>Math.max\<close> of three numbers: \<^verbatim>\<open>NaN\<close> if one of them is, else the largest.\<close>

definition Math_max2 :: "jsnum \<Rightarrow> jsnum \<Rightarrow> jsnum" where
  "Math_max2 x y = (if x = NaN \<or> y = NaN then NaN else if js_lt x y then y else x)"

definition Math_max :: "jsnum \<Rightarrow> jsnum \<Rightarrow> jsnum \<Rightarrow> jsnum" where
  "Math_max x y z = Math_max2 (Math_max2 x y) z"

text \<open>
  \<^verbatim>\<open>Math.PI\<close> is the double 3.141592653589793. The literals 0.6 and 1.3 of the source
  denote the doubles nearest to them; the other literals are doubles themselves.
\<close>

definition Math_PI :: jsnum where
  "Math_PI = Num (884279719003555 / 281474976710656)"

definition lit_0_6 :: jsnum where
  "lit_0_6 = Num (5404319552844595 / 9007199254740992)"

definition lit_1_3 :: jsnum where
  "lit_1_3 = Num (5854679515581645 / 4503599627370496)"

section \<open>Vectors and boxes\<close>

datatype vec3 = Vector3 (vx: jsnum) (vy: jsnum) (vz: jsnum)

text \<open>The methods of \<^verbatim>\<open>THREE.Vector3\<close> that the source calls.\<close>

definition copy :: "vec3 \<Rightarrow> vec3" where
  "copy v = Vector3 (vx v) (vy v) (vz v)"

definition add :: "runtime \<Rightarrow> vec3 \<Rightarrow> vec3 \<Rightarrow> vec3" where
  "add R a b = Vector3 (js_add R (vx a) (vx b)) (js_add R (vy a) (vy b)) (js_add R (vz a) (vz b))"

definition multiplyScalar :: "runtime \<Rightarrow> vec3 \<Rightarrow> jsnum \<Rightarrow> vec3" where
  "multiplyScalar R v s = Vector3 (js_mul R (vx v) s) (js_mul R (vy v) s) (js_mul R (vz v) s)"

definition setScalar :: "jsnum \<Rightarrow> vec3" where
  "setScalar s = Vector3 s s s"

text \<open>\<^verbatim>\<open>length() { return Math.sqrt(this.x * this.x + this.y * this.y + this.z * this.z) }\<close>\<close>

definition length_vec :: "runtime \<Rightarrow> vec3 \<Rightarrow> jsnum" where
  "length_vec R v =
     Math_sqrt R
       (js_add R (js_add R (js_mul R (vx v) (vx v)) (js_mul R (vy v) (vy v)))
          (js_mul R (vz v) (vz v)))"

text \<open>
  \<^verbatim>\<open>normalize() { return this.divideScalar(this.length() || 1) }\<close>, where
  \<^verbatim>\<open>divideScalar(s)\<close> is \<^verbatim>\<open>multiplyScalar(1 / s)\<close>.
\<close>

definition normalize :: "runtime \<Rightarrow> vec3 \<Rightarrow> vec3" where
  "normalize R v =
     multiplyScalar R v
       (js_div R (Num 1) (if truthy (length_vec R v) then length_vec R v else Num 1))"

text \<open>
  \<^verbatim>\<open>THREE.Box3\<close>: the two corners of an axis-aligned box. A box whose maximum lies
  below its minimum on some axis is empty; its size and centre are the zero vector.
\<close>

record box3 =
  box_min :: vec3
  box_max :: vec3

definition isEmpty :: "box3 \<Rightarrow> bool" where
  "isEmpty b \<longleftrightarrow>
     js_lt (vx (box_max b)) (vx (box_min b)) \<or> js_lt (vy (box_max b)) (vy (box_min b))
     \<or> js_lt (vz (box_max b)) (vz (box_min b))"

definition getSize :: "runtime \<Rightarrow> box3 \<Rightarrow> vec3" where
  "getSize R b =
     (if isEmpty b then Vector3 (Num 0) (Num 0) (Num 0)
      else Vector3 (js_sub R (vx (box_max b)) (vx (box_min b)))
             (js_sub R (vy (box_max b)) (vy (box_min b)))
             (js_sub R (vz (box_max b)) (vz (box_min b))))"

definition getCenter :: "runtime \<Rightarrow> box3 \<Rightarrow> vec3" where
  "getCenter R b =
     (if isEmpty b then Vector3 (Num 0) (Num 0) (Num 0)
      else multiplyScalar R (add R (box_min b) (box_max b)) (Num (1 / 2)))"

section \<open>Scene graph\<close>

text \<open>
  The part of the rendering library's scene graph that the source reads and writes. A
  node carries its own properties; \<^verbatim>\<open>uuid\<close> gives every object its identity. A material
  has a base-colour texture slot \<^verbatim>\<open>map\<close> and, for the material kinds that support
  environment lighting, an \<^verbatim>\<open>envMap\<close> property: \<open>None\<close> when the material has no such
  property, \<open>Some None\<close> when it is present and null. The model loader gives every mesh a
  single material. The source assigns the same constant at every mesh it visits, so a
  material shared between meshes ends in the same state as a copy of it in each.
\<close>

datatype color_space = NoColorSpace | SRGBColorSpace | LinearSRGBColorSpace

record texture =
  isTexture :: bool
  colorSpace :: color_space

record material =
  map_tex :: "texture option"
  envMap :: "texture option option"

record node =
  uuid :: nat
  isMesh :: bool
  castShadow :: bool
  receiveShadow :: bool
  material :: "material option"
  scale :: vec3

datatype object3d = Object3D (props: node) (children: "object3d list")

text \<open>
  \<^verbatim>\<open>traverse(callback)\<close> calls the callback on the object and then on every descendant.
  Both callbacks of the source update properties of the visited node only.
\<close>

fun traverse :: "(node \<Rightarrow> node) \<Rightarrow> object3d \<Rightarrow> object3d" where
  "traverse callback (Object3D p cs) = Object3D (callback p) (map (traverse callback) cs)"

fun nodes :: "object3d \<Rightarrow> node list" where
  "nodes (Object3D p cs) = p # concat (map nodes cs)"

section \<open>Asset loading: \<^verbatim>\<open>ModelManager.load\<close>\<close>

text \<open>
  The value the backend loader passes to its success callback, the rejection values of
  the promise that \<^verbatim>\<open>load\<close> returns, and the three states of a promise. The
  rejection values are tagged by their origin: \<open>LoadFailed\<close> carries what the backend
  loader passes to its error callback, \<open>Cancelled\<close> is the
  \<^verbatim>\<open>DOMException("Aborted", "AbortError")\<close> of the abort listener, \<open>TypeError\<close> is
  raised by \<^verbatim>\<open>root.traverse\<close> when the file has no scene, and \<open>EnvMapFailed\<close> carries
  what the HDR loader passes to its error callback.
\<close>

record gltf =
  scene :: "object3d option"
  scenes :: "object3d list option"
  animations :: "string list option"

datatype error =
  LoadFailed string
  | Cancelled
  | TypeError
  | EnvMapFailed string

datatype 'a outcome = Pending | Resolved 'a | Rejected error

record abort_signal =
  aborted :: bool

record load_options =
  signal :: "abort_signal option"
  envMapHDR :: "string option"

record asset =
  root_obj :: object3d
  bbox :: box3
  bbox_size :: vec3
  center :: vec3
  asset_animations :: "string list"

text \<open>
  What happens after \<^verbatim>\<open>load\<close> is invoked is a sequence of callbacks, in the order the
  event loop delivers them: the backend loader's success or error callback, the
  \<^verbatim>\<open>abort\<close> event of the caller's signal, and the success or error callback of the HDR
  loader. An \<^verbatim>\<open>abort\<close> event is dispatched once, at the moment the signal is aborted:
  a signal that is already aborted when \<^verbatim>\<open>load\<close> is invoked dispatches none afterwards.
\<close>

datatype event =
  GltfLoaded gltf
  | GltfError string
  | AbortEvent
  | HdrLoaded texture
  | HdrError string

text \<open>
  The first promise (lines 31 to 39) settles with the first callback that reaches it. The
  \<^verbatim>\<open>abort\<close> listener is attached to the caller's signal when there is one, and
  otherwise to the signal of a private controller that nothing ever aborts. The rest of the
  sequence is what is delivered after the promise has settled.
\<close>

fun awaitGltf :: "bool \<Rightarrow> event list \<Rightarrow> gltf outcome \<times> event list" where
  "awaitGltf listening [] = (Pending, [])"
| "awaitGltf listening (GltfLoaded a # rest) = (Resolved a, rest)"
| "awaitGltf listening (GltfError e # rest) = (Rejected (LoadFailed e), rest)"
| "awaitGltf listening (AbortEvent # rest) =
     (if listening then (Rejected Cancelled, rest) else awaitGltf listening rest)"
| "awaitGltf listening (HdrLoaded t # rest) = awaitGltf listening rest"
| "awaitGltf listening (HdrError e # rest) = awaitGltf listening rest"

text \<open>The second promise (lines 54 to 57) settles with the HDR loader's first callback.\<close>

fun awaitHdr :: "event list \<Rightarrow> texture outcome" where
  "awaitHdr [] = Pending"
| "awaitHdr (HdrLoaded t # rest) = Resolved t"
| "awaitHdr (HdrError e # rest) = Rejected (EnvMapFailed e)"
| "awaitHdr (GltfLoaded a # rest) = awaitHdr rest"
| "awaitHdr (GltfError e # rest) = awaitHdr rest"
| "awaitHdr (AbortEvent # rest) = awaitHdr rest"

text \<open>\<^verbatim>\<open>scene.scene || scene.scenes?.[0]\<close>\<close>

definition chooseRoot :: "gltf \<Rightarrow> object3d option" where
  "chooseRoot g =
     (case scene g of
        Some r \<Rightarrow> Some r
      | None \<Rightarrow> (case scenes g of None \<Rightarrow> None | Some [] \<Rightarrow> None | Some (r # _) \<Rightarrow> Some r))"

text \<open>The callback of the first traversal (lines 43 to 50).\<close>

definition prepareMesh :: "node \<Rightarrow> node" where
  "prepareMesh n =
     (if isMesh n then
        (let n1 = n\<lparr>castShadow := True\<rparr>;
             n2 = n1\<lparr>receiveShadow := True\<rparr>
         in case material n2 of
              None \<Rightarrow> n2
            | Some m \<Rightarrow>
                (case map_tex m of
                   None \<Rightarrow> n2
                 | Some t \<Rightarrow>
                     if isTexture t
                     then n2\<lparr>material := Some (m\<lparr>map_tex := Some (t\<lparr>colorSpace := SRGBColorSpace\<rparr>)\<rparr>)\<rparr>
                     else n2))
      else n)"

text \<open>The callback of the second traversal (line 59).\<close>

definition assignEnvMap :: "texture \<Rightarrow> node \<Rightarrow> node" where
  "assignEnvMap env n =
     (if isMesh n then
        (case material n of
           None \<Rightarrow> n
         | Some m \<Rightarrow>
             (case envMap m of
                None \<Rightarrow> n
              | Some _ \<Rightarrow> n\<lparr>material := Some (m\<lparr>envMap := Some (Some env)\<rparr>)\<rparr>))
      else n)"

text \<open>Lines 64 to 67: the bounding information and the returned object.\<close>

definition makeAsset :: "runtime \<Rightarrow> (object3d \<Rightarrow> box3) \<Rightarrow> gltf \<Rightarrow> object3d \<Rightarrow> asset" where
  "makeAsset R setFromObject g r =
     (let b = setFromObject r
      in \<lparr>root_obj = r, bbox = b, bbox_size = getSize R b, center = getCenter R b,
          asset_animations = (case animations g of None \<Rightarrow> [] | Some as \<Rightarrow> as)\<rparr>)"

text \<open>
  \<^verbatim>\<open>load(url, { signal, envMapHDR = null } = {})\<close>. After the runtime, the model takes the
  library's \<^verbatim>\<open>Box3.setFromObject\<close> and \<^verbatim>\<open>PMREMGenerator.fromEquirectangular\<close> as
  arguments, and the sequence of callbacks as its last. It returns the outcome of the
  promise together with the state in which it leaves the scene root that the backend
  delivered: the traversals update that object in place, so the updates are in effect
  whether or not the promise is fulfilled. An empty string for \<^verbatim>\<open>envMapHDR\<close> is falsy.
  The executor of the second promise obtains the HDR loader class by a dynamic import and
  starts the load; \<^verbatim>\<open>tex.dispose()\<close> releases the HDR source texture, which is not
  part of the result.
\<close>

definition load ::
  "runtime \<Rightarrow> (object3d \<Rightarrow> box3) \<Rightarrow> (texture \<Rightarrow> texture) \<Rightarrow> string \<Rightarrow> load_options
     \<Rightarrow> event list \<Rightarrow> asset outcome \<times> object3d option" where
  "load R setFromObject fromEquirectangular url opts events =
     (case awaitGltf (signal opts \<noteq> None) events of
        (Pending, rest) \<Rightarrow> (Pending, None)
      | (Rejected e, rest) \<Rightarrow> (Rejected e, None)
      | (Resolved g, rest) \<Rightarrow>
          (case chooseRoot g of
             None \<Rightarrow> (Rejected TypeError, None)
           | Some root0 \<Rightarrow>
               (let root1 = traverse prepareMesh root0
                in if envMapHDR opts \<noteq> None \<and> envMapHDR opts \<noteq> Some []
                   then (case awaitHdr rest of
                           Pending \<Rightarrow> (Pending, Some root1)
                         | Rejected e \<Rightarrow> (Rejected e, Some root1)
                         | Resolved tex \<Rightarrow>
                             (let env = fromEquirectangular tex;
                                  root2 = traverse (assignEnvMap env) root1
                              in (Resolved (makeAsset R setFromObject g root2), Some root2)))
                   else (Resolved (makeAsset R setFromObject g root1), Some root1))))"

section \<open>Camera framing: \<^verbatim>\<open>ModelManager.frameObject\<close>\<close>

text \<open>
  The camera and the orbit controller are objects of the rendering library. The model
  keeps the camera fields the source reads and writes.
  \<^verbatim>\<open>camera.updateProjectionMatrix()\<close> recomputes the projection matrix from the camera
  parameters; the model records the field of view and the clip planes it was computed
  from. Of the controller the model keeps the target and, as one value, the rest of its
  state (pending rotation and pan, damping, limits).
\<close>

record camera =
  fov :: jsnum
  position :: vec3
  near :: jsnum
  far :: jsnum
  projection :: "jsnum \<times> jsnum \<times> jsnum"

record 'c controls =
  target :: vec3
  internal :: 'c

text \<open>
  \<^verbatim>\<open>controls.update()\<close> is a method of the controller that the caller supplies. An orbit
  controller recomputes the position of its camera from the target and its own state, and
  may move the target. The model takes the method as an argument: a function from the
  camera and the controller to the camera and the controller after the call.
\<close>

type_synonym 'c update = "camera \<Rightarrow> 'c controls \<Rightarrow> camera \<times> 'c controls"

text \<open>
  The local constants \<^verbatim>\<open>maxDim\<close> (\<^verbatim>\<open>Math.max(size.x, size.y, size.z)\<close>) and
  \<^verbatim>\<open>dist\<close> of \<^verbatim>\<open>frameObject\<close> (model-manager.js, lines 71 to 76), from the
  world-space box of the object, the camera's field of view in degrees and the padding.
\<close>

definition maxDim :: "vec3 \<Rightarrow> jsnum" where
  "maxDim v = Math_max (vx v) (vy v) (vz v)"

definition frameDist :: "runtime \<Rightarrow> box3 \<Rightarrow> jsnum \<Rightarrow> jsnum \<Rightarrow> jsnum" where
  "frameDist R box fov_deg padding =
     (let box_size = getSize R box;
          fov = js_div R (js_mul R fov_deg Math_PI) (Num 180)
      in js_mul R
           (js_div R (maxDim box_size) (js_mul R (Num 2) (Math_tan R (js_div R fov (Num 2)))))
           padding)"

text \<open>
  Lines 71 to 82 of \<^verbatim>\<open>frameObject(object, camera, controls, padding = 1.25)\<close>: what the
  routine assigns to the camera and to the target of the controller before it calls
  \<^verbatim>\<open>controls.update()\<close>. The argument \<open>setFromObject\<close> is the library's
  \<^verbatim>\<open>Box3.setFromObject\<close>, which computes the world-space box of an object; an omitted
  padding is \<open>None\<close>.
\<close>

definition frameObject_assign ::
  "runtime \<Rightarrow> ('obj \<Rightarrow> box3) \<Rightarrow> 'obj \<Rightarrow> camera \<Rightarrow> 'c controls \<Rightarrow> jsnum option
     \<Rightarrow> camera \<times> 'c controls" where
  "frameObject_assign R setFromObject object cam ctl padding_arg =
     (let padding = (case padding_arg of None \<Rightarrow> Num (5 / 4) | Some p \<Rightarrow> p);
          box = setFromObject object;
          center = getCenter R box;
          dist = frameDist R box (fov cam) padding;
          dir = normalize R (Vector3 (Num 1) lit_0_6 (Num 1));
          cam1 = cam\<lparr>position := add R (copy center) (multiplyScalar R dir dist)\<rparr>;
          cam2 = cam1\<lparr>near := js_div R dist (Num 100)\<rparr>;
          cam3 = cam2\<lparr>far := js_mul R dist (Num 100)\<rparr>;
          cam4 = cam3\<lparr>projection := (fov cam3, near cam3, far cam3)\<rparr>;
          ctl1 = ctl\<lparr>target := copy center\<rparr>
      in (cam4, ctl1))"

text \<open>The whole routine: the assignments, then \<^verbatim>\<open>controls.update()\<close> (line 83).\<close>

definition frameObject ::
  "runtime \<Rightarrow> 'c update \<Rightarrow> ('obj \<Rightarrow> box3) \<Rightarrow> 'obj \<Rightarrow> camera \<Rightarrow> 'c controls \<Rightarrow> jsnum option
     \<Rightarrow> camera \<times> 'c controls" where
  "frameObject R update setFromObject object cam ctl padding_arg =
     (case frameObject_assign R setFromObject object cam ctl padding_arg of
        (cam4, ctl1) \<Rightarrow> update cam4 ctl1)"

section \<open>The viewer application: \<^verbatim>\<open>index.js\<close>\<close>

text \<open>
  The viewer has a framing routine of its own, \<^verbatim>\<open>frameObject(object, cam, controls)\<close>
  (index.js, lines 93 to 107; the unnamed source file repeats it at lines 101 to 115). It
  takes the length of the size vector, a fixed factor 1.3, and clip planes from the size.
  The distance at which it places the camera is \<^verbatim>\<open>fitDist * 1.3\<close>.
\<close>

definition viewerDist :: "runtime \<Rightarrow> box3 \<Rightarrow> jsnum \<Rightarrow> jsnum" where
  "viewerDist R box fov_deg =
     (let size_len = length_vec R (getSize R box);
          fitDist =
            js_div R size_len
              (js_mul R (Num 2) (Math_tan R (js_div R (js_mul R fov_deg Math_PI) (Num 360))))
      in js_mul R fitDist lit_1_3)"

definition frameObject_viewer_assign ::
  "runtime \<Rightarrow> ('obj \<Rightarrow> box3) \<Rightarrow> 'obj \<Rightarrow> camera \<Rightarrow> 'c controls \<Rightarrow> camera \<times> 'c controls" where
  "frameObject_viewer_assign R setFromObject object cam ctl =
     (let box = setFromObject object;
          size_len = length_vec R (getSize R box);
          center = getCenter R box;
          dir = normalize R (Vector3 (Num 1) lit_0_6 (Num 1));
          cam1 = cam\<lparr>position :=
                   add R (copy center) (multiplyScalar R dir (viewerDist R box (fov cam)))\<rparr>;
          cam2 = cam1\<lparr>near := js_div R size_len (Num 100)\<rparr>;
          cam3 = cam2\<lparr>far := js_mul R size_len (Num 10)\<rparr>;
          cam4 = cam3\<lparr>projection := (fov cam3, near cam3, far cam3)\<rparr>;
          ctl1 = ctl\<lparr>target := copy center\<rparr>
      in (cam4, ctl1))"

definition frameObject_viewer ::
  "runtime \<Rightarrow> 'c update \<Rightarrow> ('obj \<Rightarrow> box3) \<Rightarrow> 'obj \<Rightarrow> camera \<Rightarrow> 'c controls
     \<Rightarrow> camera \<times> 'c controls" where
  "frameObject_viewer R update setFromObject object cam ctl =
     (case frameObject_viewer_assign R setFromObject object cam ctl of
        (cam4, ctl1) \<Rightarrow> update cam4 ctl1)"

text \<open>The variants table of index.js (lines 8 to 12) and of the unnamed source file (lines 8 to 18).\<close>

record variant =
  label :: string
  url :: string
  variant_scale :: jsnum

definition VARIANTS :: "(string \<times> variant) list" where
  "VARIANTS =
     [(''plus1pm'', \<lparr>label = ''Shelly Plus 1PM'', url = ''./assets/shelly2.glb'', variant_scale = Num 1\<rparr>),
      (''plus2pm'', \<lparr>label = ''Shelly Plus 2PM'', url = ''./assets/shelly.glb'', variant_scale = Num 1\<rparr>),
      (''plusi4'', \<lparr>label = ''Shelly Plus i4'', url = ''./assets/shelly1.glb'', variant_scale = Num 1\<rparr>)]"

definition VARIANTS_part_000 :: "(string \<times> variant) list" where
  "VARIANTS_part_000 =
     [(''plus1pm'', \<lparr>label = ''Shelly Plus 1PM'', url = ''./assets/shelly2.glb'', variant_scale = Num 1\<rparr>),
      (''plus2pm'', \<lparr>label = ''Shelly Plus 2PM'', url = ''./assets/shelly.glb'', variant_scale = Num 1\<rparr>),
      (''plusi4'', \<lparr>label = ''Shelly Plus i4'', url = ''./assets/shelly1.glb'', variant_scale = Num 1\<rparr>),
      (''duorgbw'', \<lparr>label = ''Shelly Duo RGBW'', url = ''./assets/duo_rgbw.glb'', variant_scale = Num 1\<rparr>),
      (''pro1'', \<lparr>label = ''Shelly Pro 1'', url = ''./assets/pro1.glb'', variant_scale = Num 1\<rparr>),
      (''pro1pm'', \<lparr>label = ''Shelly Pro 1PM'', url = ''./assets/pro1pm.glb'', variant_scale = Num 1\<rparr>),
      (''pro2pm'', \<lparr>label = ''Shelly Pro 2PM'', url = ''./assets/pro2pm.glb'', variant_scale = Num 1\<rparr>),
      (''pro1dimmer'', \<lparr>label = ''Shelly Pro Dimmer1PM'', url = ''./assets/pro1dimmer.glb'', variant_scale = Num 1\<rparr>),
      (''pro3em'', \<lparr>label = ''Shelly Pro 3EM'', url = ''./assets/pro3em.glb'', variant_scale = Num 1\<rparr>)]"

text \<open>
  \<^verbatim>\<open>VARIANTS[name]\<close> is a property read on an object literal: it finds the table's own
  entry, and otherwise whatever the object inherits from \<^verbatim>\<open>Object.prototype\<close> under that
  name. Each inherited member is a function or an object, hence truthy, and has no
  \<^verbatim>\<open>url\<close>, \<^verbatim>\<open>scale\<close> or \<^verbatim>\<open>label\<close> property.
\<close>

definition Object_prototype :: "string list" where
  "Object_prototype =
     [''constructor'', ''hasOwnProperty'', ''isPrototypeOf'', ''propertyIsEnumerable'',
      ''toLocaleString'', ''toString'', ''valueOf'', ''__proto__'',
      ''__defineGetter__'', ''__defineSetter__'', ''__lookupGetter__'', ''__lookupSetter__'']"

datatype cfg = Undefined | Entry variant | Inherited

definition lookup :: "(string \<times> variant) list \<Rightarrow> string \<Rightarrow> cfg" where
  "lookup table name =
     (case map_of table name of
        Some v \<Rightarrow> Entry v
      | None \<Rightarrow> if name \<in> set Object_prototype then Inherited else Undefined)"

fun cfg_url :: "cfg \<Rightarrow> string option" where
  "cfg_url (Entry v) = Some (url v)"
| "cfg_url c = None"

fun cfg_scale :: "cfg \<Rightarrow> jsnum option" where
  "cfg_scale (Entry v) = Some (variant_scale v)"
| "cfg_scale c = None"

fun cfg_label :: "cfg \<Rightarrow> string" where
  "cfg_label (Entry v) = label v"
| "cfg_label c = ''undefined''"

text \<open>
  The module-level state: the children of the scene, the \<^verbatim>\<open>currentModel\<close> slot, the
  model cache, the camera and the orbit controller, the URLs handed to
  \<^verbatim>\<open>loader.load\<close> so far (\<open>None\<close> for \<^verbatim>\<open>undefined\<close>), and, in the unnamed source
  file, the height of the grid and the text of the status line.
\<close>

record 'c viewer =
  scene_children :: "object3d list"
  currentModel :: "object3d option"
  cache :: "string \<rightharpoonup> object3d"
  viewer_camera :: camera
  viewer_controls :: "'c controls"
  loaderCalls :: "string option list"
  grid_y :: jsnum
  status :: string

text \<open>Lines 74 to 77 of index.js: take the current model out of the scene.\<close>

definition removeCurrent :: "'c viewer \<Rightarrow> 'c viewer" where
  "removeCurrent s =
     (case currentModel s of
        None \<Rightarrow> s
      | Some m \<Rightarrow> s\<lparr>scene_children := remove1 m (scene_children s), currentModel := None\<rparr>)"

text \<open>
  Lines 79 to 86: the cached model, or a load through the backend, whose outcome is an
  argument of the model. A file without a scene makes \<^verbatim>\<open>model\<close> undefined, and the
  first use of it raises a \<^verbatim>\<open>TypeError\<close>.
\<close>

definition fetchModel ::
  "cfg \<Rightarrow> string \<Rightarrow> gltf outcome \<Rightarrow> 'c viewer \<Rightarrow> object3d outcome \<times> 'c viewer" where
  "fetchModel c name response s =
     (case cache s name of
        Some model \<Rightarrow> (Resolved model, s)
      | None \<Rightarrow>
          (let s1 = s\<lparr>loaderCalls := loaderCalls s @ [cfg_url c]\<rparr>
           in case response of
                Pending \<Rightarrow> (Pending, s1)
              | Rejected e \<Rightarrow> (Rejected e, s1)
              | Resolved g \<Rightarrow>
                  (case scene g of
                     None \<Rightarrow> (Rejected TypeError, s1)
                   | Some (Object3D p cs) \<Rightarrow>
                       (let model =
                              (case cfg_scale c of
                                 None \<Rightarrow> Object3D p cs
                               | Some k \<Rightarrow>
                                   if truthy k \<and> k \<noteq> Num 1
                                   then Object3D (p\<lparr>scale := setScalar k\<rparr>) cs
                                   else Object3D p cs)
                        in (Resolved model, s1\<lparr>cache := (cache s1)(name \<mapsto> model)\<rparr>)))))"

text \<open>Lines 88 to 90: show the model and frame it.\<close>

definition display ::
  "runtime \<Rightarrow> 'c update \<Rightarrow> (object3d \<Rightarrow> box3) \<Rightarrow> object3d \<Rightarrow> 'c viewer \<Rightarrow> 'c viewer" where
  "display R update setFromObject model s =
     (let s1 = s\<lparr>currentModel := Some model\<rparr>;
          s2 = s1\<lparr>scene_children := remove1 model (scene_children s1) @ [model]\<rparr>;
          framed =
            frameObject_viewer R update setFromObject model (viewer_camera s2) (viewer_controls s2)
      in s2\<lparr>viewer_camera := fst framed, viewer_controls := snd framed\<rparr>)"

text \<open>\<^verbatim>\<open>setVariant(name)\<close> of index.js (lines 70 to 91).\<close>

definition setVariant ::
  "runtime \<Rightarrow> 'c update \<Rightarrow> (object3d \<Rightarrow> box3) \<Rightarrow> gltf outcome \<Rightarrow> string \<Rightarrow> 'c viewer
     \<Rightarrow> unit outcome \<times> 'c viewer" where
  "setVariant R update setFromObject response name s =
     (let c = lookup VARIANTS name
      in if c = Undefined then (Resolved (), s)
         else (case fetchModel c name response (removeCurrent s) of
                 (Pending, s1) \<Rightarrow> (Pending, s1)
               | (Rejected e, s1) \<Rightarrow> (Rejected e, s1)
               | (Resolved model, s1) \<Rightarrow>
                   (Resolved (), display R update setFromObject model s1)))"

text \<open>
  \<^verbatim>\<open>setVariant(name)\<close> of the unnamed source file (lines 76 to 99), which also places
  the grid at the floor of the model and writes the status line.
\<close>

definition placeGridAtModelFloor ::
  "(object3d \<Rightarrow> box3) \<Rightarrow> object3d \<Rightarrow> 'c viewer \<Rightarrow> 'c viewer" where
  "placeGridAtModelFloor setFromObject object3D s =
     s\<lparr>grid_y := vy (box_min (setFromObject object3D))\<rparr>"

definition setStatus :: "string \<Rightarrow> 'c viewer \<Rightarrow> 'c viewer" where
  "setStatus txt s = s\<lparr>status := txt\<rparr>"

definition setVariant_part_000 ::
  "runtime \<Rightarrow> 'c update \<Rightarrow> (object3d \<Rightarrow> box3) \<Rightarrow> gltf outcome \<Rightarrow> string \<Rightarrow> 'c viewer
     \<Rightarrow> unit outcome \<times> 'c viewer" where
  "setVariant_part_000 R update setFromObject response name s =
     (let c = lookup VARIANTS_part_000 name
      in if c = Undefined then (Resolved (), s)
         else (case fetchModel c name response (removeCurrent s) of
                 (Pending, s1) \<Rightarrow> (Pending, s1)
               | (Rejected e, s1) \<Rightarrow> (Rejected e, s1)
               | (Resolved model, s1) \<Rightarrow>
                   (Resolved (),
                    setStatus (''Loaded: '' @ cfg_label c)
                      (placeGridAtModelFloor setFromObject model
                        (display R update setFromObject model s1)))))"

section \<open>Auxiliary predicates and example inputs\<close>

text \<open>The callbacks with which the backend loader settles the first promise.\<close>

fun isBackendEvent :: "event \<Rightarrow> bool" where
  "isBackendEvent (GltfLoaded a) = True"
| "isBackendEvent (GltfError e) = True"
| "isBackendEvent AbortEvent = False"
| "isBackendEvent (HdrLoaded t) = False"
| "isBackendEvent (HdrError e) = False"

text \<open>The property that the first traversal establishes at a node.\<close>

definition meshPrepared :: "node \<Rightarrow> bool" where
  "meshPrepared n \<longleftrightarrow>
     (isMesh n \<longrightarrow>
        castShadow n \<and> receiveShadow n
        \<and> (\<forall>m t. material n = Some m \<and> map_tex m = Some t \<and> isTexture t
               \<longrightarrow> colorSpace t = SRGBColorSpace))"

text \<open>The comparison \<^verbatim>\<open><=\<close>.\<close>

definition js_le :: "jsnum \<Rightarrow> jsnum \<Rightarrow> bool" where
  "js_le x y \<longleftrightarrow> js_lt x y \<or> (x = y \<and> x \<noteq> NaN)"

text \<open>
  What rounding to the nearest double guarantees, as far as the properties below need it:
  rounding is monotone and never yields \<^verbatim>\<open>NaN\<close>, zero and every rounded value are
  doubles and round to themselves, and a finite rounded value is no farther from the exact
  value than zero is.
\<close>

definition roundsToNearest :: "runtime \<Rightarrow> bool" where
  "roundsToNearest R \<longleftrightarrow>
     (\<forall>x y. x \<le> y \<longrightarrow> js_le (rnd R x) (rnd R y))
     \<and> rnd R 0 = Num 0
     \<and> (\<forall>x a. rnd R x = Num a \<longrightarrow> rnd R a = Num a)
     \<and> (\<forall>x a. rnd R x = Num a \<longrightarrow> \<bar>a - x\<bar> \<le> \<bar>x\<bar>)"

text \<open>
  The runtime of a real engine. Rounding is to the nearest binary64 value, ties to the
  even significand: the unit in the last place is \<open>2\<close> to the exponent of the argument,
  but not below the exponent of the subnormal numbers, less 52; a result of magnitude
  \<open>2 ^ 1024\<close> or more overflows. \<^verbatim>\<open>Math.sqrt\<close> is correctly rounded. \<^verbatim>\<open>Math.tan\<close> is given by the value
  that the engines return at 0.5235987755982988, the half angle that a field of view of 60
  degrees produces, which is 0.5773502691896257, and is otherwise taken as correctly
  rounded.
\<close>

definition rne :: "real \<Rightarrow> int" where
  "rne x =
     (let f = \<lfloor>x\<rfloor>; r = x - of_int f
      in if r < 1 / 2 then f else if 1 / 2 < r then f + 1 else if even f then f else f + 1)"

definition ulp_exponent :: "real \<Rightarrow> int" where
  "ulp_exponent x = max \<lfloor>log 2 \<bar>x\<bar>\<rfloor> (- 1022) - 52"

definition magnitude :: "real \<Rightarrow> real" where
  "magnitude x =
     of_int (rne (\<bar>x\<bar> / 2 powr of_int (ulp_exponent x))) * 2 powr of_int (ulp_exponent x)"

definition binary64 :: "real \<Rightarrow> jsnum" where
  "binary64 x =
     (if x = 0 then Num 0
      else if 2 powr 1024 \<le> magnitude x then (if 0 < x then PosInf else NegInf)
      else Num (sgn x * magnitude x))"

fun doubles_tan :: "jsnum \<Rightarrow> jsnum" where
  "doubles_tan (Num x) =
     (if x = 4716158501352293 / 9007199254740992 then Num (1300077228592327 / 2251799813685248)
      else binary64 (tan x))"
| "doubles_tan x = NaN"

fun doubles_sqrt :: "jsnum \<Rightarrow> jsnum" where
  "doubles_sqrt (Num x) = (if x < 0 then NaN else binary64 (sqrt x))"
| "doubles_sqrt PosInf = PosInf"
| "doubles_sqrt x = NaN"

definition doubles :: runtime where
  "doubles = \<lparr>rnd = binary64, Math_tan = doubles_tan, Math_sqrt = doubles_sqrt\<rparr>"

text \<open>Example boxes, and a stand-in for \<^verbatim>\<open>Box3.setFromObject\<close> on the example objects.\<close>

definition cube :: "real \<Rightarrow> box3" where
  "cube h =
     \<lparr>box_min = Vector3 (Num (- h)) (Num (- h)) (Num (- h)),
      box_max = Vector3 (Num h) (Num h) (Num h)\<rparr>"

definition boxOfSize :: "real \<Rightarrow> real \<Rightarrow> real \<Rightarrow> box3" where
  "boxOfSize a b c =
     \<lparr>box_min = Vector3 (Num 0) (Num 0) (Num 0), box_max = Vector3 (Num a) (Num b) (Num c)\<rparr>"

definition exampleBounds :: "object3d \<Rightarrow> box3" where
  "exampleBounds obj = cube (real (uuid (props obj)))"

definition flatBounds :: "object3d \<Rightarrow> box3" where
  "flatBounds obj = boxOfSize 3 4 0"

definition exampleTexture :: texture where
  "exampleTexture = \<lparr>isTexture = True, colorSpace = NoColorSpace\<rparr>"

definition exampleMesh :: node where
  "exampleMesh =
     \<lparr>uuid = 2, isMesh = True, castShadow = False, receiveShadow = False,
      material = Some \<lparr>map_tex = Some exampleTexture, envMap = Some None\<rparr>,
      scale = Vector3 (Num 1) (Num 1) (Num 1)\<rparr>"

definition exampleGroup :: node where
  "exampleGroup =
     \<lparr>uuid = 1, isMesh = False, castShadow = False, receiveShadow = False,
      material = None, scale = Vector3 (Num 1) (Num 1) (Num 1)\<rparr>"

definition exampleScene :: object3d where
  "exampleScene = Object3D exampleGroup [Object3D exampleMesh []]"

definition exampleGltf :: gltf where
  "exampleGltf = \<lparr>scene = Some exampleScene, scenes = Some [exampleScene], animations = None\<rparr>"

definition examplePmrem :: "texture \<Rightarrow> texture" where
  "examplePmrem t = t\<lparr>colorSpace := LinearSRGBColorSpace\<rparr>"

definition exampleOptions :: load_options where
  "exampleOptions = \<lparr>signal = None, envMapHDR = None\<rparr>"

definition cam0 :: camera where
  "cam0 =
     \<lparr>fov = Num 60, position = Vector3 (Num 3) (Num 2) (Num 5), near = Num (1 / 10),
      far = Num 1000, projection = (Num 60, Num (1 / 10), Num 1000)\<rparr>"

text \<open>
  An example controller, whose state is a pending pan. Its \<^verbatim>\<open>update()\<close> moves the target
  by the pending pan, puts the camera at its old offset from the new target, and clears
  the pan, as an orbit controller without damping does. A controller with no pan pending
  is settled.
\<close>

definition sub :: "runtime \<Rightarrow> vec3 \<Rightarrow> vec3 \<Rightarrow> vec3" where
  "sub R a b = Vector3 (js_sub R (vx a) (vx b)) (js_sub R (vy a) (vy b)) (js_sub R (vz a) (vz b))"

definition panUpdate :: "runtime \<Rightarrow> vec3 update" where
  "panUpdate R cam ctl =
     (let offset = sub R (position cam) (target ctl);
          target1 = add R (target ctl) (internal ctl)
      in (cam\<lparr>position := add R target1 offset\<rparr>,
          ctl\<lparr>target := target1, internal := Vector3 (Num 0) (Num 0) (Num 0)\<rparr>))"

definition settled :: "vec3 controls" where
  "settled = \<lparr>target = Vector3 (Num 0) (Num 0) (Num 0), internal = Vector3 (Num 0) (Num 0) (Num 0)\<rparr>"

definition panning :: "vec3 controls" where
  "panning = \<lparr>target = Vector3 (Num 0) (Num 0) (Num 0), internal = Vector3 (Num 1) (Num 0) (Num 0)\<rparr>"

definition exampleViewer :: "vec3 viewer" where
  "exampleViewer =
     \<lparr>scene_children = [exampleScene], currentModel = Some exampleScene,
      cache = [''plus1pm'' \<mapsto> exampleScene],
      viewer_camera = cam0, viewer_controls = settled, loaderCalls = [],
      grid_y = Num 0, status = []\<rparr>"

section \<open>Properties of the framing routines\<close>

lemma frameObject_assign_camera:
  "fst (frameObject_assign R setFromObject object cam ctl padding_arg) =
     cam\<lparr>position :=
           add R (getCenter R (setFromObject object))
             (multiplyScalar R (normalize R (Vector3 (Num 1) lit_0_6 (Num 1)))
               (frameDist R (setFromObject object) (fov cam)
                 (case padding_arg of None \<Rightarrow> Num (5 / 4) | Some p \<Rightarrow> p))),
         near := js_div R (frameDist R (setFromObject object) (fov cam)
                   (case padding_arg of None \<Rightarrow> Num (5 / 4) | Some p \<Rightarrow> p)) (Num 100),
         far := js_mul R (frameDist R (setFromObject object) (fov cam)
                  (case padding_arg of None \<Rightarrow> Num (5 / 4) | Some p \<Rightarrow> p)) (Num 100),
         projection :=
           (fov cam,
            js_div R (frameDist R (setFromObject object) (fov cam)
              (case padding_arg of None \<Rightarrow> Num (5 / 4) | Some p \<Rightarrow> p)) (Num 100),
            js_mul R (frameDist R (setFromObject object) (fov cam)
              (case padding_arg of None \<Rightarrow> Num (5 / 4) | Some p \<Rightarrow> p)) (Num 100))\<rparr>"
  by (cases "getCenter R (setFromObject object)") (simp add: frameObject_assign_def Let_def copy_def)

lemma frameObject_assign_controls:
  "snd (frameObject_assign R setFromObject object cam ctl padding_arg) =
     ctl\<lparr>target := getCenter R (setFromObject object)\<rparr>"
  by (cases "getCenter R (setFromObject object)") (simp add: frameObject_assign_def Let_def copy_def)

lemma frameObject_update:
  "frameObject R update setFromObject object cam ctl padding_arg =
     update (fst (frameObject_assign R setFromObject object cam ctl padding_arg))
       (snd (frameObject_assign R setFromObject object cam ctl padding_arg))"
  by (simp add: frameObject_def split: prod.splits)

lemma frameObject_viewer_assign_camera:
  "fst (frameObject_viewer_assign R setFromObject object cam ctl) =
     cam\<lparr>position :=
           add R (getCenter R (setFromObject object))
             (multiplyScalar R (normalize R (Vector3 (Num 1) lit_0_6 (Num 1)))
               (viewerDist R (setFromObject object) (fov cam))),
         near := js_div R (length_vec R (getSize R (setFromObject object))) (Num 100),
         far := js_mul R (length_vec R (getSize R (setFromObject object))) (Num 10),
         projection :=
           (fov cam,
            js_div R (length_vec R (getSize R (setFromObject object))) (Num 100),
            js_mul R (length_vec R (getSize R (setFromObject object))) (Num 10))\<rparr>"
  by (cases "getCenter R (setFromObject object)")
    (simp add: frameObject_viewer_assign_def Let_def copy_def)

lemma frameObject_viewer_assign_controls:
  "snd (frameObject_viewer_assign R setFromObject object cam ctl) =
     ctl\<lparr>target := getCenter R (setFromObject object)\<rparr>"
  by (cases "getCenter R (setFromObject object)")
    (simp add: frameObject_viewer_assign_def Let_def copy_def)

lemma frameObject_viewer_update:
  "frameObject_viewer R update setFromObject object cam ctl =
     update (fst (frameObject_viewer_assign R setFromObject object cam ctl))
       (snd (frameObject_viewer_assign R setFromObject object cam ctl))"
  by (simp add: frameObject_viewer_def split: prod.splits)

text \<open>\<^verbatim>\<open>Math.max\<close> of three finite numbers is the largest of them.\<close>

lemma Math_max_finite: "Math_max (Num a) (Num b) (Num c) = Num (Max {a, b, c})"
  by (simp add: Math_max_def Math_max2_def max_def)

text \<open>
  C3, as the code has it. \<^verbatim>\<open>ModelManager.frameObject\<close> computes its distance as
  \<open>(m / (2 * tan (fov_radians / 2))) * padding\<close>, where \<open>m\<close> is \<^verbatim>\<open>Math.max\<close> of the three
  extents of the bounding box, the field of view is converted from degrees to radians, an
  omitted padding is 1.25, and every operation is the runtime's. It assigns the centre
  plus the direction times this distance to the camera position and hands the camera to
  the controller's update. The viewer's own \<^verbatim>\<open>frameObject\<close> has no padding: its distance is
  \<open>(l / (2 * tan (fov * PI / 360))) * 1.3\<close>, where \<open>l\<close> is the length of the size vector,
  which combines all three extents.
\<close>

theorem frame_distance_formulas:
  "let extents = getSize R (setFromObject object);
       padding = (case padding_arg of None \<Rightarrow> Num (5 / 4) | Some p \<Rightarrow> p);
       fov_radians = js_div R (js_mul R (fov cam) Math_PI) (Num 180);
       d = js_mul R
             (js_div R (Math_max (vx extents) (vy extents) (vz extents))
                (js_mul R (Num 2) (Math_tan R (js_div R fov_radians (Num 2)))))
             padding;
       l = Math_sqrt R
             (js_add R
                (js_add R (js_mul R (vx extents) (vx extents)) (js_mul R (vy extents) (vy extents)))
                (js_mul R (vz extents) (vz extents)));
       dv = js_mul R
              (js_div R l
                 (js_mul R (Num 2) (Math_tan R (js_div R (js_mul R (fov cam) Math_PI) (Num 360)))))
              lit_1_3;
       dir = normalize R (Vector3 (Num 1) lit_0_6 (Num 1));
       c = getCenter R (setFromObject object)
   in frameDist R (setFromObject object) (fov cam) padding = d
      \<and> position (fst (frameObject_assign R setFromObject object cam ctl padding_arg))
          = add R c (multiplyScalar R dir d)
      \<and> frameObject R update setFromObject object cam ctl padding_arg
          = update (fst (frameObject_assign R setFromObject object cam ctl padding_arg))
              (snd (frameObject_assign R setFromObject object cam ctl padding_arg))
      \<and> viewerDist R (setFromObject object) (fov cam) = dv
      \<and> position (fst (frameObject_viewer_assign R setFromObject object cam ctl))
          = add R c (multiplyScalar R dir dv)
      \<and> frameObject_viewer R update setFromObject object cam ctl
          = update (fst (frameObject_viewer_assign R setFromObject object cam ctl))
              (snd (frameObject_viewer_assign R setFromObject object cam ctl))
      \<and> (\<forall>x y z. Math_max (Num x) (Num y) (Num z) = Num (Max {x, y, z}))"
  unfolding Let_def
  apply (intro conjI allI)
  subgoal by (simp add: frameDist_def maxDim_def Let_def)
  subgoal by (simp add: frameObject_assign_camera frameDist_def maxDim_def Let_def)
  subgoal by (rule frameObject_update)
  subgoal by (simp add: viewerDist_def length_vec_def Let_def)
  subgoal by (simp add: frameObject_viewer_assign_camera viewerDist_def length_vec_def Let_def)
  subgoal by (rule frameObject_viewer_update)
  subgoal by (rule Math_max_finite)
  done

text \<open>
  C5, as the code has it. \<^verbatim>\<open>frameObject\<close> assigns to the camera position the centre of
  the bounding box plus the computed distance times \<^verbatim>\<open>normalize\<close> of (1, 0.6, 1), each
  component of which is the component times one over the length, and assigns the centre
  to the target of the controller. It then calls the controller's update on this camera
  and controller: the position and the target after the invocation are those that the
  update returns.
\<close>

theorem frameObject_pose:
  "let c = getCenter R (setFromObject object);
       d = frameDist R (setFromObject object) (fov cam)
             (case padding_arg of None \<Rightarrow> Num (5 / 4) | Some p \<Rightarrow> p);
       l = length_vec R (Vector3 (Num 1) lit_0_6 (Num 1));
       s = js_div R (Num 1) (if truthy l then l else Num 1);
       assigned = frameObject_assign R setFromObject object cam ctl padding_arg
   in position (fst assigned)
        = Vector3 (js_add R (vx c) (js_mul R (js_mul R (Num 1) s) d))
            (js_add R (vy c) (js_mul R (js_mul R lit_0_6 s) d))
            (js_add R (vz c) (js_mul R (js_mul R (Num 1) s) d))
      \<and> target (snd assigned) = c \<and> internal (snd assigned) = internal ctl
      \<and> frameObject R update setFromObject object cam ctl padding_arg
          = update (fst assigned) (snd assigned)"
  unfolding Let_def
  apply (intro conjI)
  subgoal
    by (simp add: frameObject_assign_camera normalize_def add_def multiplyScalar_def)
  subgoal by (simp add: frameObject_assign_controls)
  subgoal by (simp add: frameObject_assign_controls)
  subgoal by (rule frameObject_update)
  done

text \<open>
  C8, as the code has it. When the controller's update leaves the camera's field of view
  as it is, a second invocation of \<^verbatim>\<open>frameObject\<close> on the same object and padding
  assigns the same camera and the same target as the first, so it hands the update the
  same pose. When moreover the first update has left the controller's own state as it
  was, the second invocation returns what the first returned.
\<close>

theorem frameObject_twice:
  assumes "\<forall>c k. fov (fst (update c k)) = fov c"
  shows "let once = frameObject R update setFromObject object cam ctl padding_arg;
             first = frameObject_assign R setFromObject object cam ctl padding_arg;
             second = frameObject_assign R setFromObject object (fst once) (snd once) padding_arg
         in fst second = fst first \<and> target (snd second) = target (snd first)
            \<and> (internal (snd once) = internal ctl \<longrightarrow>
                 frameObject R update setFromObject object (fst once) (snd once) padding_arg = once)"
proof -
  let ?once = "frameObject R update setFromObject object cam ctl padding_arg"
  let ?first = "frameObject_assign R setFromObject object cam ctl padding_arg"
  let ?second = "frameObject_assign R setFromObject object (fst ?once) (snd ?once) padding_arg"
  have f: "fov (fst ?once) = fov cam"
    using assms by (simp add: frameObject_update frameObject_assign_camera)
  have cam_eq: "fst ?second = fst ?first"
    by (simp add: frameObject_assign_camera f)
  have tgt: "target (snd ?second) = target (snd ?first)"
    by (simp add: frameObject_assign_controls)
  have "snd ?second = snd ?first" if "internal (snd ?once) = internal ctl"
    using that by (simp add: frameObject_assign_controls)
  then have "internal (snd ?once) = internal ctl \<longrightarrow>
      frameObject R update setFromObject object (fst ?once) (snd ?once) padding_arg = ?once"
    using cam_eq by (simp add: frameObject_update)
  with cam_eq tgt show ?thesis
    unfolding Let_def by blast
qed

text \<open>
  C9, as the code has it. The result of \<^verbatim>\<open>frameObject\<close> is a function of the object's
  bounding box, the camera's field of view, the padding, and the controller, that is, its
  update and its own state: it is the same whatever the camera position, the clip planes,
  the projection and the controller target were before.
\<close>

theorem frameObject_ignores_prior_pose:
  "frameObject R update setFromObject object
     (cam\<lparr>position := p, near := n, far := f, projection := m\<rparr>) (ctl\<lparr>target := t\<rparr>) padding_arg
   = frameObject R update setFromObject object cam ctl padding_arg"
  by (simp add: frameObject_update frameObject_assign_camera frameObject_assign_controls)

section \<open>Rounding\<close>

lemma js_le_Num [simp]: "js_le (Num a) (Num b) \<longleftrightarrow> a \<le> b"
  by (auto simp: js_le_def)

lemma js_le_PosInf [simp]: "js_le x PosInf \<longleftrightarrow> x \<noteq> NaN"
  by (cases x) (simp_all add: js_le_def)

lemma js_le_from_zero:
  assumes "js_le (Num 0) x"
  obtains a where "x = Num a" and "0 \<le> a" | "x = PosInf"
  using assms by (cases x) (auto simp: js_le_def)

lemma rnd_mono: "roundsToNearest R \<Longrightarrow> x \<le> y \<Longrightarrow> js_le (rnd R x) (rnd R y)"
  by (simp add: roundsToNearest_def)

lemma rnd_not_NaN:
  assumes "roundsToNearest R"
  shows "rnd R x \<noteq> NaN"
  using rnd_mono [OF assms, of x x] by (auto simp: js_le_def)

lemma rnd_nonneg:
  assumes "roundsToNearest R" and "0 \<le> x"
  shows "js_le (Num 0) (rnd R x)"
proof -
  have "rnd R 0 = Num 0"
    using assms(1) by (simp add: roundsToNearest_def)
  with rnd_mono [OF assms(1) assms(2)] show ?thesis
    by simp
qed

lemma js_mul_Num_rounded: "js_mul R x y = Num r \<Longrightarrow> \<exists>z. rnd R z = Num r"
  by (cases x; cases y) (auto split: if_splits)

text \<open>Multiplication by a positive number is monotone on the non-negative numbers.\<close>

lemma js_mul_mono_left:
  assumes R: "roundsToNearest R"
    and x: "js_le (Num 0) x" and xy: "js_le x y" and p: "0 < p"
  shows "js_le (js_mul R x (Num p)) (js_mul R y (Num p))"
proof -
  from x show ?thesis
  proof (cases rule: js_le_from_zero)
    case (1 a)
    show ?thesis
    proof (cases y)
      case (Num b)
      with 1 xy have "a * p \<le> b * p"
        using p by simp
      then show ?thesis
        using 1 Num by (simp add: rnd_mono [OF R])
    next
      case PosInf
      then show ?thesis
        using 1 p by (simp add: rnd_not_NaN [OF R])
    next
      case NegInf
      then show ?thesis
        using 1 xy by (simp add: js_le_def)
    next
      case NaN
      then show ?thesis
        using 1 xy by (simp add: js_le_def)
    qed
  next
    case 2
    with xy have "y = PosInf"
      by (cases y) (simp_all add: js_le_def)
    with 2 p show ?thesis
      by simp
  qed
qed

lemma js_mul_mono_right:
  assumes R: "roundsToNearest R"
    and x: "js_le (Num 0) x" and p: "0 < p1" "p1 \<le> p2"
  shows "js_le (js_mul R x (Num p1)) (js_mul R x (Num p2))"
proof -
  from x show ?thesis
  proof (cases rule: js_le_from_zero)
    case (1 a)
    then have "a * p1 \<le> a * p2"
      using p by (simp add: mult_left_mono)
    then show ?thesis
      using 1 by (simp add: rnd_mono [OF R])
  next
    case 2
    then show ?thesis
      using p by simp
  qed
qed

text \<open>For a positive double, the hundredth lies strictly below the hundredfold.\<close>

lemma near_less_far:
  assumes R: "roundsToNearest R" and d: "rnd R r = Num r" and pos: "0 < r"
  shows "js_lt (js_div R (Num r) (Num 100)) (js_mul R (Num r) (Num 100))"
proof -
  have lo: "js_le (Num 0) (rnd R (r / 100))"
    using pos by (intro rnd_nonneg [OF R]) simp
  have "js_le (rnd R (r / 100)) (rnd R r)"
    using pos by (intro rnd_mono [OF R]) simp
  then have up: "js_le (rnd R (r / 100)) (Num r)"
    by (simp add: d)
  from lo up obtain a where a: "rnd R (r / 100) = Num a" "0 \<le> a"
    by (cases rule: js_le_from_zero) (auto simp: js_le_def)
  have "\<bar>a - r / 100\<bar> \<le> \<bar>r / 100\<bar>"
    using R a(1) unfolding roundsToNearest_def by blast
  then have small: "a < r"
    using pos by arith
  have "js_le (rnd R r) (rnd R (r * 100))"
    using pos by (intro rnd_mono [OF R]) simp
  then have "js_le (Num r) (rnd R (r * 100))"
    by (simp add: d)
  then have "js_lt (Num a) (rnd R (r * 100))"
    using small by (cases "rnd R (r * 100)") (auto simp: js_le_def)
  then show ?thesis
    by (simp add: a(1))
qed

section \<open>Evaluation in binary64\<close>

lemma binary64_zero: "binary64 0 = Num 0"
  by (simp add: binary64_def)

lemma rne_bounds: "of_int (rne x) \<le> x + 1 / 2" "x - 1 / 2 \<le> of_int (rne x)"
  unfolding rne_def Let_def by (auto; linarith)+

lemma binary64_normal:
  fixes x :: real and e m :: int
  assumes pos: "0 < x"
    and lo: "2 powr of_int e \<le> x" and hi: "x < 2 powr (of_int e + 1)"
    and e: "- 1022 \<le> e" "e \<le> 1022"
    and m: "rne (x / 2 powr (of_int e - 52)) = m"
  shows "binary64 x = Num (of_int m * 2 powr (of_int e - 52))"
proof -
  have fl: "\<lfloor>log 2 x\<rfloor> = e"
    using floor_log_eq_powr_iff [of x 2 e] pos lo hi by simp
  have ex: "ulp_exponent x = e - 52"
    using fl pos e by (simp add: ulp_exponent_def)
  let ?u = "(2::real) powr (of_int e - 52)"
  have mag: "magnitude x = of_int m * ?u"
    using pos m by (simp add: magnitude_def ex)
  have upos: "0 < ?u" by simp
  have "x / ?u < 2 powr (of_int e + 1) / ?u"
    using hi upos by (simp add: divide_strict_right_mono)
  also have "2 powr (of_int e + 1) / ?u = 2 powr 53"
    by (simp add: powr_diff [symmetric])
  finally have z: "x / ?u < 2 powr 53" .
  have "of_int m \<le> x / ?u + 1 / 2"
    using rne_bounds(1) [of "x / ?u"] m by simp
  then have "of_int m < (2::real) powr 53 + 1"
    using z by linarith
  then have "of_int m < (2::real) ^ 53 + 1"
    by simp
  then have "of_int m < (of_int (2 ^ 53 + 1) :: real)"
    by simp
  then have "m < 2 ^ 53 + 1"
    by (simp only: of_int_less_iff)
  then have mle: "m \<le> 2 ^ 53" by simp
  have "(of_int m :: real) \<le> of_int (2 ^ 53)"
    using mle by (simp only: of_int_le_iff)
  then have mr: "(of_int m :: real) \<le> 2 powr 53"
    by simp
  have a: "of_int m * ?u \<le> 2 powr 53 * ?u"
    using mr upos by (intro mult_right_mono) simp_all
  have "2 powr 53 * ?u = 2 powr (53 + (of_int e - 52))"
    by (rule powr_add [symmetric])
  also have "53 + (of_int e - 52) = of_int e + (1::real)"
    by simp
  finally have b: "2 powr 53 * ?u = 2 powr (of_int e + 1)" .
  have c: "(2::real) powr (of_int e + 1) \<le> 2 powr 1023"
    using e by (intro powr_mono) simp_all
  have d: "(2::real) powr 1023 < 2 powr 1024"
    by (rule powr_less_mono) simp_all
  have "of_int m * ?u < 2 powr 1024"
    using a b c d by linarith
  then have small: "\<not> 2 powr 1024 \<le> magnitude x"
    by (simp add: mag)
  show ?thesis
    unfolding binary64_def using pos small by (simp add: mag)
qed

lemma dbl_fov_times_PI: "js_mul doubles (Num 60) (Math_PI) = Num (3316048946263331 / 17592186044416)"
proof -
  have "binary64 ((60) * (884279719003555 / 281474976710656)) = Num (of_int 6632097892526662 * 2 powr (of_int 7 - 52))"
    by (rule binary64_normal) (simp_all add: rne_def powr_minus_divide)
  then show ?thesis
    by (simp add: doubles_def powr_minus_divide Math_PI_def)
qed

lemma dbl_fov_radians: "js_div doubles (Num (3316048946263331 / 17592186044416)) (Num 180) = Num (4716158501352293 / 4503599627370496)"
proof -
  have "binary64 ((3316048946263331 / 17592186044416) / (180)) = Num (of_int 4716158501352293 * 2 powr (of_int 0 - 52))"
    by (rule binary64_normal) (simp_all add: rne_def powr_minus_divide)
  then show ?thesis
    by (simp add: doubles_def powr_minus_divide )
qed

lemma dbl_half_angle: "js_div doubles (Num (4716158501352293 / 4503599627370496)) (Num 2) = Num (4716158501352293 / 9007199254740992)"
proof -
  have "binary64 ((4716158501352293 / 4503599627370496) / (2)) = Num (of_int 4716158501352293 * 2 powr (of_int (- 1) - 52))"
    by (rule binary64_normal) (simp_all add: rne_def powr_minus_divide)
  then show ?thesis
    by (simp add: doubles_def powr_minus_divide )
qed

lemma dbl_half_angle_viewer: "js_div doubles (Num (3316048946263331 / 17592186044416)) (Num 360) = Num (4716158501352293 / 9007199254740992)"
proof -
  have "binary64 ((3316048946263331 / 17592186044416) / (360)) = Num (of_int 4716158501352293 * 2 powr (of_int (- 1) - 52))"
    by (rule binary64_normal) (simp_all add: rne_def powr_minus_divide)
  then show ?thesis
    by (simp add: doubles_def powr_minus_divide )
qed

lemma dbl_tan: "Math_tan doubles (Num (4716158501352293 / 9007199254740992)) = Num (1300077228592327 / 2251799813685248)"
  by (simp add: doubles_def)

lemma dbl_divisor: "js_mul doubles (Num 2) (Num (1300077228592327 / 2251799813685248)) = Num (1300077228592327 / 1125899906842624)"
proof -
  have "binary64 ((2) * (1300077228592327 / 2251799813685248)) = Num (of_int 5200308914369308 * 2 powr (of_int 0 - 52))"
    by (rule binary64_normal) (simp_all add: rne_def powr_minus_divide)
  then show ?thesis
    by (simp add: doubles_def powr_minus_divide )
qed

lemma dbl_size_1: "js_sub doubles (Num (2255740463359197 / 2251799813685248)) (Num 0) = Num (2255740463359197 / 2251799813685248)"
proof -
  have "binary64 (2255740463359197 / 2251799813685248) = Num (of_int 4511480926718394 * 2 powr (of_int 0 - 52))"
    by (rule binary64_normal) (simp_all add: rne_def powr_minus_divide)
  then show ?thesis
    by (simp add: js_sub_def doubles_def powr_minus_divide)
qed

lemma dbl_size_2: "js_sub doubles (Num (4511480926718395 / 4503599627370496)) (Num 0) = Num (4511480926718395 / 4503599627370496)"
proof -
  have "binary64 (4511480926718395 / 4503599627370496) = Num (of_int 4511480926718395 * 2 powr (of_int 0 - 52))"
    by (rule binary64_normal) (simp_all add: rne_def powr_minus_divide)
  then show ?thesis
    by (simp add: js_sub_def doubles_def powr_minus_divide)
qed

lemma dbl_size_3: "js_sub doubles (Num 3) (Num 0) = Num 3"
proof -
  have "binary64 (3) = Num (of_int 6755399441055744 * 2 powr (of_int 1 - 52))"
    by (rule binary64_normal) (simp_all add: rne_def powr_minus_divide)
  then show ?thesis
    by (simp add: js_sub_def doubles_def powr_minus_divide)
qed

lemma dbl_size_4: "js_sub doubles (Num 4) (Num 0) = Num 4"
proof -
  have "binary64 (4) = Num (of_int 4503599627370496 * 2 powr (of_int 2 - 52))"
    by (rule binary64_normal) (simp_all add: rne_def powr_minus_divide)
  then show ?thesis
    by (simp add: js_sub_def doubles_def powr_minus_divide)
qed

lemma dbl_quot_1: "js_div doubles (Num (2255740463359197 / 2251799813685248)) (Num (1300077228592327 / 1125899906842624)) = Num (3907057091227091 / 4503599627370496)"
proof -
  have "binary64 ((2255740463359197 / 2251799813685248) / (1300077228592327 / 1125899906842624)) = Num (of_int 7814114182454182 * 2 powr (of_int (- 1) - 52))"
    by (rule binary64_normal) (simp_all add: rne_def powr_minus_divide)
  then show ?thesis
    by (simp add: doubles_def powr_minus_divide )
qed

lemma dbl_quot_2: "js_div doubles (Num (4511480926718395 / 4503599627370496)) (Num (1300077228592327 / 1125899906842624)) = Num (7814114182454183 / 9007199254740992)"
proof -
  have "binary64 ((4511480926718395 / 4503599627370496) / (1300077228592327 / 1125899906842624)) = Num (of_int 7814114182454183 * 2 powr (of_int (- 1) - 52))"
    by (rule binary64_normal) (simp_all add: rne_def powr_minus_divide)
  then show ?thesis
    by (simp add: doubles_def powr_minus_divide )
qed

lemma dbl_dist_1: "js_mul doubles (Num (3907057091227091 / 4503599627370496)) (Num (5 / 4)) = Num (610477670504233 / 562949953421312)"
proof -
  have "binary64 ((3907057091227091 / 4503599627370496) * (5 / 4)) = Num (of_int 4883821364033864 * 2 powr (of_int 0 - 52))"
    by (rule binary64_normal) (simp_all add: rne_def powr_minus_divide)
  then show ?thesis
    by (simp add: doubles_def powr_minus_divide )
qed

lemma dbl_dist_2: "js_mul doubles (Num (7814114182454183 / 9007199254740992)) (Num (5 / 4)) = Num (610477670504233 / 562949953421312)"
proof -
  have "binary64 ((7814114182454183 / 9007199254740992) * (5 / 4)) = Num (of_int 4883821364033864 * 2 powr (of_int 0 - 52))"
    by (rule binary64_normal) (simp_all add: rne_def powr_minus_divide)
  then show ?thesis
    by (simp add: doubles_def powr_minus_divide )
qed

lemma dbl_sq_3: "js_mul doubles (Num 3) (Num 3) = Num 9"
proof -
  have "binary64 ((3) * (3)) = Num (of_int 5066549580791808 * 2 powr (of_int 3 - 52))"
    by (rule binary64_normal) (simp_all add: rne_def powr_minus_divide)
  then show ?thesis
    by (simp add: doubles_def powr_minus_divide )
qed

lemma dbl_sq_4: "js_mul doubles (Num 4) (Num 4) = Num 16"
proof -
  have "binary64 ((4) * (4)) = Num (of_int 4503599627370496 * 2 powr (of_int 4 - 52))"
    by (rule binary64_normal) (simp_all add: rne_def powr_minus_divide)
  then show ?thesis
    by (simp add: doubles_def powr_minus_divide )
qed

lemma dbl_sum_sq: "js_add doubles (Num 9) (Num 16) = Num 25"
proof -
  have "binary64 ((9) + (16)) = Num (of_int 7036874417766400 * 2 powr (of_int 4 - 52))"
    by (rule binary64_normal) (simp_all add: rne_def powr_minus_divide)
  then show ?thesis
    by (simp add: doubles_def powr_minus_divide )
qed

lemma dbl_fitDist: "js_div doubles (Num 5) (Num (1300077228592327 / 1125899906842624)) = Num (4875289607221227 / 1125899906842624)"
proof -
  have "binary64 ((5) / (1300077228592327 / 1125899906842624)) = Num (of_int 4875289607221227 * 2 powr (of_int 2 - 52))"
    by (rule binary64_normal) (simp_all add: rne_def powr_minus_divide)
  then show ?thesis
    by (simp add: doubles_def powr_minus_divide )
qed

lemma dbl_viewerDist: "js_mul doubles (Num (4875289607221227 / 1125899906842624)) (lit_1_3) = Num (6337876489387595 / 1125899906842624)"
proof -
  have "binary64 ((4875289607221227 / 1125899906842624) * (5854679515581645 / 4503599627370496)) = Num (of_int 6337876489387595 * 2 powr (of_int 2 - 52))"
    by (rule binary64_normal) (simp_all add: rne_def powr_minus_divide)
  then show ?thesis
    by (simp add: doubles_def powr_minus_divide lit_1_3_def)
qed

lemma dbl_quot_4: "js_div doubles (Num 4) (Num (1300077228592327 / 1125899906842624)) = Num (7800463371553963 / 2251799813685248)"
proof -
  have "binary64 ((4) / (1300077228592327 / 1125899906842624)) = Num (of_int 7800463371553963 * 2 powr (of_int 1 - 52))"
    by (rule binary64_normal) (simp_all add: rne_def powr_minus_divide)
  then show ?thesis
    by (simp add: doubles_def powr_minus_divide )
qed

lemma dbl_dist_4: "js_mul doubles (Num (7800463371553963 / 2251799813685248)) (Num (5 / 4)) = Num (4875289607221227 / 1125899906842624)"
proof -
  have "binary64 ((7800463371553963 / 2251799813685248) * (5 / 4)) = Num (of_int 4875289607221227 * 2 powr (of_int 2 - 52))"
    by (rule binary64_normal) (simp_all add: rne_def powr_minus_divide)
  then show ?thesis
    by (simp add: doubles_def powr_minus_divide )
qed

lemma dbl_far: "js_mul doubles (Num 5) (Num 10) = Num 50"
proof -
  have "binary64 ((5) * (10)) = Num (of_int 7036874417766400 * 2 powr (of_int 5 - 52))"
    by (rule binary64_normal) (simp_all add: rne_def powr_minus_divide)
  then show ?thesis
    by (simp add: doubles_def powr_minus_divide )
qed

lemma dbl_dist_times_100: "js_mul doubles (Num (6337876489387595 / 1125899906842624)) (Num 100) = Num (4951466007334059 / 8796093022208)"
proof -
  have "binary64 ((6337876489387595 / 1125899906842624) * (100)) = Num (of_int 4951466007334059 * 2 powr (of_int 9 - 52))"
    by (rule binary64_normal) (simp_all add: rne_def powr_minus_divide)
  then show ?thesis
    by (simp add: doubles_def powr_minus_divide )
qed
section \<open>Rounding to binary64 is rounding to nearest\<close>

lemma rne_of_int: "rne (of_int k) = k"
  by (simp add: rne_def)

lemma rne_mono: "z \<le> w \<Longrightarrow> rne z \<le> rne w"
proof -
  assume zw: "z \<le> w"
  have fz: "\<lfloor>z\<rfloor> \<le> \<lfloor>w\<rfloor>"
    using zw by (rule floor_mono)
  show ?thesis
  proof (cases "\<lfloor>z\<rfloor> = \<lfloor>w\<rfloor>")
    case True
    then have "z - of_int \<lfloor>z\<rfloor> \<le> w - of_int \<lfloor>w\<rfloor>"
      using zw by simp
    then show ?thesis
      using True unfolding rne_def Let_def by auto
  next
    case False
    with fz have "\<lfloor>z\<rfloor> + 1 \<le> \<lfloor>w\<rfloor>"
      by simp
    moreover have "rne z \<le> \<lfloor>z\<rfloor> + 1"
      unfolding rne_def Let_def by auto
    moreover have "\<lfloor>w\<rfloor> \<le> rne w"
      unfolding rne_def Let_def by auto
    ultimately show ?thesis
      by linarith
  qed
qed

lemma rne_error: "\<bar>of_int (rne z) - z\<bar> \<le> 1 / 2"
  using rne_bounds [of z] by arith

lemma rne_small: "0 \<le> z \<Longrightarrow> z < 1 / 2 \<Longrightarrow> rne z = 0"
proof -
  assume "0 \<le> z" "z < 1 / 2"
  then have "\<lfloor>z\<rfloor> = 0"
    by (simp add: floor_eq_iff)
  then show ?thesis
    using \<open>z < 1 / 2\<close> by (simp add: rne_def)
qed

lemma rne_nonneg: "0 \<le> z \<Longrightarrow> 0 \<le> rne z"
  using rne_mono [of 0 z] rne_of_int [of 0] by simp

text \<open>The exponent of the unit in the last place.\<close>

lemma ulp_exponent_lower: "- 1074 \<le> ulp_exponent x"
  by (simp add: ulp_exponent_def)

lemma below_next_binade:
  assumes "x \<noteq> 0"
  shows "\<bar>x\<bar> < 2 powr (of_int (ulp_exponent x) + 53)"
proof -
  let ?k = "\<lfloor>log 2 \<bar>x\<bar>\<rfloor>"
  have "\<bar>x\<bar> < 2 powr (of_int ?k + 1)"
    using floor_log_eq_powr_iff [of "\<bar>x\<bar>" 2 ?k] assms by simp
  also have "\<dots> \<le> 2 powr (of_int (ulp_exponent x) + 53)"
    by (intro powr_mono) (simp_all add: ulp_exponent_def)
  finally show ?thesis .
qed

lemma above_binade:
  assumes "x \<noteq> 0" and "- 1074 < ulp_exponent x"
  shows "2 powr (of_int (ulp_exponent x) + 52) \<le> \<bar>x\<bar>"
proof -
  let ?k = "\<lfloor>log 2 \<bar>x\<bar>\<rfloor>"
  have "ulp_exponent x = ?k - 52"
    using assms(2) by (simp add: ulp_exponent_def max_def split: if_splits)
  moreover have "2 powr of_int ?k \<le> \<bar>x\<bar>"
    using floor_log_eq_powr_iff [of "\<bar>x\<bar>" 2 ?k] assms by simp
  ultimately show ?thesis
    by simp
qed

lemma ulp_exponent_mono:
  assumes "0 < x" and "x \<le> y"
  shows "ulp_exponent x \<le> ulp_exponent y"
proof -
  have "log 2 x \<le> log 2 y"
    using assms by simp
  then have "\<lfloor>log 2 x\<rfloor> \<le> \<lfloor>log 2 y\<rfloor>"
    by (rule floor_mono)
  then show ?thesis
    using assms by (simp add: ulp_exponent_def)
qed

lemma ulp_exponent_minus [simp]: "ulp_exponent (- x) = ulp_exponent x"
  by (simp add: ulp_exponent_def)

lemma magnitude_minus [simp]: "magnitude (- x) = magnitude x"
  by (simp add: magnitude_def)


text \<open>The significand, as an integer.\<close>

lemma scaled_bounds:
  assumes "x \<noteq> 0"
  shows "0 \<le> \<bar>x\<bar> / 2 powr of_int (ulp_exponent x)"
    and "\<bar>x\<bar> / 2 powr of_int (ulp_exponent x) < 2 powr 53"
    and "- 1074 < ulp_exponent x \<Longrightarrow> 2 powr 52 \<le> \<bar>x\<bar> / 2 powr of_int (ulp_exponent x)"
proof -
  let ?u = "(2::real) powr of_int (ulp_exponent x)"
  have upos: "0 < ?u" by simp
  show "0 \<le> \<bar>x\<bar> / ?u" by simp
  have "\<bar>x\<bar> / ?u < 2 powr (of_int (ulp_exponent x) + 53) / ?u"
    using below_next_binade [OF assms] upos by (simp add: divide_strict_right_mono)
  also have "\<dots> = 2 powr 53"
    by (simp add: powr_diff [symmetric])
  finally show "\<bar>x\<bar> / ?u < 2 powr 53" .
  assume "- 1074 < ulp_exponent x"
  from above_binade [OF assms this]
  have "2 powr (of_int (ulp_exponent x) + 52) / ?u \<le> \<bar>x\<bar> / ?u"
    using upos by (simp add: divide_right_mono)
  moreover have "2 powr (of_int (ulp_exponent x) + 52) / ?u = 2 powr 52"
    by (simp add: powr_diff [symmetric])
  ultimately show "2 powr 52 \<le> \<bar>x\<bar> / ?u"
    by simp
qed

lemma significand_bounds:
  assumes "x \<noteq> 0"
  shows "0 \<le> rne (\<bar>x\<bar> / 2 powr of_int (ulp_exponent x))"
    and "rne (\<bar>x\<bar> / 2 powr of_int (ulp_exponent x)) \<le> 2 ^ 53"
    and "- 1074 < ulp_exponent x \<Longrightarrow> 2 ^ 52 \<le> rne (\<bar>x\<bar> / 2 powr of_int (ulp_exponent x))"
proof -
  let ?z = "\<bar>x\<bar> / 2 powr of_int (ulp_exponent x)"
  show "0 \<le> rne ?z"
    using scaled_bounds(1) [OF assms] by (rule rne_nonneg)
  have "?z \<le> of_int (2 ^ 53)"
    using scaled_bounds(2) [OF assms] by simp
  from rne_mono [OF this] show "rne ?z \<le> 2 ^ 53"
    by (simp only: rne_of_int)
  assume "- 1074 < ulp_exponent x"
  then have "of_int (2 ^ 52) \<le> ?z"
    using scaled_bounds(3) [OF assms] by simp
  from rne_mono [OF this] show "2 ^ 52 \<le> rne ?z"
    by (simp only: rne_of_int)
qed

lemma magnitude_bounds:
  assumes "x \<noteq> 0"
  shows "0 \<le> magnitude x"
    and "magnitude x \<le> 2 powr (of_int (ulp_exponent x) + 53)"
    and "- 1074 < ulp_exponent x \<Longrightarrow> 2 powr (of_int (ulp_exponent x) + 52) \<le> magnitude x"
proof -
  let ?u = "(2::real) powr of_int (ulp_exponent x)"
  let ?m = "rne (\<bar>x\<bar> / ?u)"
  have upos: "0 < ?u" by simp
  show "0 \<le> magnitude x"
    using significand_bounds(1) [OF assms] by (simp add: magnitude_def)
  have "(of_int ?m :: real) \<le> of_int (2 ^ 53)"
    using significand_bounds(2) [OF assms] by (simp only: of_int_le_iff)
  then have "of_int ?m * ?u \<le> 2 powr 53 * ?u"
    using upos by (intro mult_right_mono) simp_all
  also have "2 powr 53 * ?u = 2 powr (53 + of_int (ulp_exponent x))"
    by (rule powr_add [symmetric])
  finally show "magnitude x \<le> 2 powr (of_int (ulp_exponent x) + 53)"
    by (simp add: magnitude_def add.commute)
  assume "- 1074 < ulp_exponent x"
  then have "(of_int (2 ^ 52) :: real) \<le> of_int ?m"
    using significand_bounds(3) [OF assms] by (simp only: of_int_le_iff)
  then have m: "2 powr 52 \<le> (of_int ?m :: real)"
    by simp
  have "2 powr (of_int (ulp_exponent x) + 52) = ?u * 2 powr 52"
    by (rule powr_add)
  also have "\<dots> \<le> ?u * of_int ?m"
    using m upos by (intro mult_left_mono) simp_all
  also have "\<dots> = magnitude x"
    by (simp only: magnitude_def mult.commute)
  finally show "2 powr (of_int (ulp_exponent x) + 52) \<le> magnitude x" .
qed

lemma magnitude_mono:
  assumes "0 < x" and "x \<le> y"
  shows "magnitude x \<le> magnitude y"
proof (cases "ulp_exponent x = ulp_exponent y")
  case True
  let ?u = "(2::real) powr of_int (ulp_exponent y)"
  have "\<bar>x\<bar> / ?u \<le> \<bar>y\<bar> / ?u"
    using assms by (simp add: divide_right_mono)
  from rne_mono [OF this] have "(of_int (rne (\<bar>x\<bar> / ?u)) :: real) \<le> of_int (rne (\<bar>y\<bar> / ?u))"
    by (simp only: of_int_le_iff)
  then show ?thesis
    unfolding magnitude_def True by (intro mult_right_mono) simp_all
next
  case False
  with ulp_exponent_mono [OF assms] have less: "ulp_exponent x < ulp_exponent y"
    by simp
  have x0: "x \<noteq> 0" and y0: "y \<noteq> 0"
    using assms by simp_all
  have "- 1074 < ulp_exponent y"
    using less ulp_exponent_lower [of x] by simp
  from magnitude_bounds(3) [OF y0 this]
  have "2 powr (of_int (ulp_exponent y) + 52) \<le> magnitude y" .
  moreover have "magnitude x \<le> 2 powr (of_int (ulp_exponent x) + 53)"
    by (rule magnitude_bounds(2) [OF x0])
  moreover have "(2::real) powr (of_int (ulp_exponent x) + 53) \<le> 2 powr (of_int (ulp_exponent y) + 52)"
    using less by (intro powr_mono) simp_all
  ultimately show ?thesis
    by linarith
qed


text \<open>Rounding to binary64 is monotone.\<close>

lemma js_le_trans: "js_le a b \<Longrightarrow> js_le b c \<Longrightarrow> js_le a c"
  by (cases a; cases b; cases c) (auto simp: js_le_def)

lemma js_le_neg: "js_le a b \<Longrightarrow> js_le (js_neg b) (js_neg a)"
  by (cases a; cases b) (auto simp: js_le_def)

lemma binary64_pos:
  "0 < x \<Longrightarrow> binary64 x = (if 2 powr 1024 \<le> magnitude x then PosInf else Num (magnitude x))"
  by (simp add: binary64_def)

lemma binary64_minus: "binary64 (- x) = js_neg (binary64 x)"
  by (simp add: binary64_def sgn_if)

lemma binary64_pos_mono:
  assumes "0 < x" and "x \<le> y"
  shows "js_le (binary64 x) (binary64 y)"
  using magnitude_mono [OF assms] assms by (simp add: binary64_pos)

lemma binary64_nonneg:
  assumes "0 \<le> x"
  shows "js_le (Num 0) (binary64 x)"
proof (cases "x = 0")
  case True
  then show ?thesis
    by (simp add: binary64_def)
next
  case False
  then have "0 < x" and "x \<noteq> 0"
    using assms by simp_all
  then show ?thesis
    using magnitude_bounds(1) [of x] by (simp add: binary64_pos)
qed

lemma binary64_nonpos:
  assumes "x \<le> 0"
  shows "js_le (binary64 x) (Num 0)"
proof -
  have "js_le (js_neg (binary64 (- x))) (js_neg (Num 0))"
    using assms by (intro js_le_neg binary64_nonneg) simp
  then show ?thesis
    by (simp add: binary64_minus [symmetric])
qed

lemma binary64_mono:
  assumes "x \<le> y"
  shows "js_le (binary64 x) (binary64 y)"
proof -
  consider "0 < x" | "y < 0" | "x \<le> 0" "0 \<le> y"
    using assms by linarith
  then show ?thesis
  proof cases
    case 1
    then show ?thesis
      using assms by (rule binary64_pos_mono)
  next
    case 2
    then have "js_le (binary64 (- y)) (binary64 (- x))"
      using assms by (intro binary64_pos_mono) simp_all
    from js_le_neg [OF this] show ?thesis
      by (simp add: binary64_minus [symmetric])
  next
    case 3
    then show ?thesis
      by (intro js_le_trans [OF binary64_nonpos binary64_nonneg])
  qed
qed

text \<open>A rounded value is no farther from the exact value than zero is.\<close>

lemma binary64_error:
  assumes "binary64 x = Num a"
  shows "\<bar>a - x\<bar> \<le> \<bar>x\<bar>"
proof (cases "x = 0")
  case True
  with assms show ?thesis
    by (simp add: binary64_def)
next
  case False
  let ?u = "(2::real) powr of_int (ulp_exponent x)"
  let ?z = "\<bar>x\<bar> / ?u"
  have upos: "0 < ?u" by simp
  have a: "a = sgn x * magnitude x"
    using assms False by (simp add: binary64_def split: if_splits)
  have "\<bar>a - x\<bar> = \<bar>magnitude x - \<bar>x\<bar>\<bar>"
    unfolding a using False by (cases "0 < x") (simp_all add: sgn_if)
  also have "magnitude x - \<bar>x\<bar> = (of_int (rne ?z) - ?z) * ?u"
    using upos by (simp add: magnitude_def algebra_simps)
  also have "\<bar>(of_int (rne ?z) - ?z) * ?u\<bar> = \<bar>of_int (rne ?z) - ?z\<bar> * ?u"
    by (simp add: abs_mult)
  also have "\<dots> \<le> ?z * ?u"
  proof (intro mult_right_mono)
    show "\<bar>of_int (rne ?z) - ?z\<bar> \<le> ?z"
    proof (cases "?z < 1 / 2")
      case True
      then have "rne ?z = 0"
        by (intro rne_small) simp_all
      then show ?thesis
        by simp
    next
      case False
      then show ?thesis
        using rne_error [of ?z] by linarith
    qed
  qed simp
  also have "?z * ?u = \<bar>x\<bar>"
    using upos by simp
  finally show ?thesis .
qed


text \<open>A value of the format rounds to itself.\<close>

lemma ulp_exponent_eqI:
  assumes "0 < y" and "- 1074 \<le> e"
    and "y < 2 powr (of_int e + 53)"
    and "- 1074 < e \<Longrightarrow> 2 powr (of_int e + 52) \<le> y"
  shows "ulp_exponent y = e"
proof -
  have "log 2 y < of_int e + 53"
    using assms(1,3) by (simp add: log_less_iff)
  then have "log 2 y < of_int (e + 53)"
    by simp
  then have up: "\<lfloor>log 2 y\<rfloor> < e + 53"
    by (simp only: floor_less_iff)
  show ?thesis
  proof (cases "- 1074 < e")
    case True
    then have "2 powr (of_int e + 52) \<le> y"
      by (rule assms(4))
    then have "of_int e + 52 \<le> log 2 y"
      using assms(1) by (simp add: le_log_iff)
    then have "of_int (e + 52) \<le> log 2 y"
      by simp
    then have "e + 52 \<le> \<lfloor>log 2 y\<rfloor>"
      by (simp only: le_floor_iff)
    then show ?thesis
      using up True assms(1) by (simp add: ulp_exponent_def)
  next
    case False
    then show ?thesis
      using up assms(1,2) by (simp add: ulp_exponent_def)
  qed
qed

lemma magnitude_fixed:
  assumes "x \<noteq> 0" and "magnitude x \<noteq> 0"
  shows "magnitude (magnitude x) = magnitude x"
proof -
  let ?e = "ulp_exponent x"
  let ?u = "(2::real) powr of_int ?e"
  let ?m = "rne (\<bar>x\<bar> / ?u)"
  have upos: "0 < ?u" by simp
  have M: "magnitude x = of_int ?m * ?u"
    by (simp only: magnitude_def)
  have Mpos: "0 < magnitude x"
    using magnitude_bounds(1) [OF assms(1)] assms(2) by simp
  show ?thesis
  proof (cases "?m < 2 ^ 53")
    case True
    then have "(of_int ?m :: real) < of_int (2 ^ 53)"
      by (simp only: of_int_less_iff)
    then have "of_int ?m * ?u < 2 powr 53 * ?u"
      using upos by (intro mult_strict_right_mono) simp_all
    also have "2 powr 53 * ?u = 2 powr (53 + of_int ?e)"
      by (rule powr_add [symmetric])
    finally have lt: "magnitude x < 2 powr (of_int ?e + 53)"
      by (simp add: M add.commute)
    have e: "ulp_exponent (magnitude x) = ?e"
      using Mpos ulp_exponent_lower lt magnitude_bounds(3) [OF assms(1)]
      by (rule ulp_exponent_eqI)
    have "\<bar>magnitude x\<bar> / ?u = of_int ?m"
      using Mpos upos by (simp add: M)
    then have "rne (\<bar>magnitude x\<bar> / ?u) = ?m"
      by (simp only: rne_of_int)
    then show ?thesis
      unfolding magnitude_def [of "magnitude x"] e by (simp only: M)
  next
    case False
    then have m: "?m = 2 ^ 53"
      using significand_bounds(2) [OF assms(1)] by simp
    have "magnitude x = 2 powr 53 * ?u"
      by (simp add: M m)
    also have "\<dots> = 2 powr (53 + of_int ?e)"
      by (rule powr_add [symmetric])
    finally have val: "magnitude x = 2 powr (of_int (?e + 1) + 52)"
      by (simp add: add.commute)
    have lo: "- 1074 \<le> ?e + 1"
      using ulp_exponent_lower [of x] by simp
    have e: "ulp_exponent (magnitude x) = ?e + 1"
      using Mpos lo
    proof (rule ulp_exponent_eqI)
      show "magnitude x < 2 powr (of_int (?e + 1) + 53)"
        unfolding val by (rule powr_less_mono) simp_all
      show "2 powr (of_int (?e + 1) + 52) \<le> magnitude x"
        unfolding val by simp
    qed
    let ?v = "(2::real) powr of_int (?e + 1)"
    have vpos: "0 < ?v" by simp
    have "magnitude x = ?v * 2 powr 52"
      unfolding val by (rule powr_add)
    then have prod: "magnitude x = of_int (2 ^ 52) * ?v"
      by simp
    have "\<bar>magnitude x\<bar> / ?v = of_int (2 ^ 52)"
      using vpos Mpos by (simp add: prod)
    then have "rne (\<bar>magnitude x\<bar> / ?v) = 2 ^ 52"
      by (simp only: rne_of_int)
    then show ?thesis
      unfolding magnitude_def [of "magnitude x"] e by (simp only: prod)
  qed
qed

lemma binary64_fixed:
  assumes "binary64 x = Num a"
  shows "binary64 a = Num a"
proof (cases "x = 0 \<or> magnitude x = 0")
  case True
  then have "a = 0"
    using assms by (auto simp: binary64_def split: if_splits)
  then show ?thesis
    by (simp add: binary64_def)
next
  case False
  then have x: "x \<noteq> 0" and m: "magnitude x \<noteq> 0"
    by simp_all
  have pos: "0 < magnitude x"
    using magnitude_bounds(1) [OF x] m by simp
  have small: "\<not> 2 powr 1024 \<le> magnitude x" and a: "a = sgn x * magnitude x"
    using assms x by (simp_all add: binary64_def split: if_splits)
  have mag: "magnitude a = magnitude x"
  proof (cases "0 < x")
    case True
    then show ?thesis
      using magnitude_fixed [OF x m] by (simp add: a)
  next
    case False
    then have "a = - magnitude x"
      using x by (simp add: a sgn_if)
    then show ?thesis
      using magnitude_fixed [OF x m] by simp
  qed
  have sg: "sgn a = sgn x"
    using pos x by (simp add: a sgn_if)
  have "a \<noteq> 0"
    using pos x by (simp add: a sgn_if)
  then have "binary64 a = Num (sgn a * magnitude a)"
    using small by (simp add: binary64_def mag)
  also have "sgn a * magnitude a = a"
    unfolding mag sg by (rule a [symmetric])
  finally show ?thesis .
qed

lemma roundsToNearest_doubles: "roundsToNearest doubles"
  unfolding roundsToNearest_def
proof (intro conjI allI impI)
  fix x y :: real
  assume "x \<le> y"
  then show "js_le (rnd doubles x) (rnd doubles y)"
    by (simp add: doubles_def binary64_mono)
next
  show "rnd doubles 0 = Num 0"
    by (simp add: doubles_def binary64_def)
next
  fix x a
  assume "rnd doubles x = Num a"
  then show "rnd doubles a = Num a"
    by (simp add: doubles_def binary64_fixed)
next
  fix x a
  assume "rnd doubles x = Num a"
  then show "\<bar>a - x\<bar> \<le> \<bar>x\<bar>"
    by (simp add: doubles_def binary64_error)
qed

section \<open>Clip planes and monotonicity\<close>

text \<open>
  C4, as the code has it. \<^verbatim>\<open>ModelManager.frameObject\<close> assigns the computed distance
  divided by 100 to the near clip plane and the distance times 100 to the far clip plane,
  each rounded by the runtime, and they are the clip planes after the invocation when the
  controller's update leaves the clip planes alone. Under rounding to nearest, near lies
  below far whenever the distance is positive and finite. The viewer's own
  \<^verbatim>\<open>frameObject\<close> takes both planes from the length of the size vector: the length
  divided by 100 and the length times 10.
\<close>

theorem clip_planes:
  assumes "roundsToNearest R"
  shows "let d = frameDist R (setFromObject object) (fov cam)
                   (case padding_arg of None \<Rightarrow> Num (5 / 4) | Some p \<Rightarrow> p);
             l = length_vec R (getSize R (setFromObject object));
             a = fst (frameObject_assign R setFromObject object cam ctl padding_arg);
             v = fst (frameObject_viewer_assign R setFromObject object cam ctl)
         in near a = js_div R d (Num 100) \<and> far a = js_mul R d (Num 100)
            \<and> (\<forall>r. d = Num r \<and> 0 < r \<longrightarrow> js_lt (near a) (far a))
            \<and> ((\<forall>c k. near (fst (update c k)) = near c \<and> far (fst (update c k)) = far c) \<longrightarrow>
                 near (fst (frameObject R update setFromObject object cam ctl padding_arg))
                   = js_div R d (Num 100)
                 \<and> far (fst (frameObject R update setFromObject object cam ctl padding_arg))
                   = js_mul R d (Num 100))
            \<and> near v = js_div R l (Num 100) \<and> far v = js_mul R l (Num 10)"
proof -
  let ?d = "frameDist R (setFromObject object) (fov cam)
              (case padding_arg of None \<Rightarrow> Num (5 / 4) | Some p \<Rightarrow> p)"
  have order: "js_lt (js_div R ?d (Num 100)) (js_mul R ?d (Num 100))" if "?d = Num r" and "0 < r" for r
  proof -
    have "\<exists>z. rnd R z = Num r"
      using that(1) unfolding frameDist_def Let_def by (rule js_mul_Num_rounded)
    then have "rnd R r = Num r"
      using assms unfolding roundsToNearest_def by blast
    from near_less_far [OF assms this that(2)] show ?thesis
      by (simp add: that(1))
  qed
  show ?thesis
    unfolding Let_def
    apply (intro conjI allI impI)
    subgoal by (simp add: frameObject_assign_camera)
    subgoal by (simp add: frameObject_assign_camera)
    subgoal for r using order [of r] by (simp add: frameObject_assign_camera)
    subgoal by (simp add: frameObject_update frameObject_assign_camera)
    subgoal by (simp add: frameObject_update frameObject_assign_camera)
    subgoal by (simp add: frameObject_viewer_assign_camera)
    subgoal by (simp add: frameObject_viewer_assign_camera)
    done
qed

lemma panUpdate_clip_planes:
  "near (fst (panUpdate R c k)) = near c \<and> far (fst (panUpdate R c k)) = far c
   \<and> fov (fst (panUpdate R c k)) = fov c"
  by (simp add: panUpdate_def Let_def)

lemma exampleBounds_scene: "exampleBounds exampleScene = cube 1"
  by (simp add: exampleBounds_def exampleScene_def exampleGroup_def)

text \<open>
  C7, as the code has it. Under rounding to nearest, and when twice the runtime's tangent
  of the half angle is a positive finite number, the framing distance is non-decreasing
  in the largest extent of the box, for positive extents and a fixed padding of at least
  1, and non-decreasing in the padding, for paddings of at least 1 and a fixed positive
  largest extent.
\<close>

theorem frameDist_nondecreasing:
  assumes R: "roundsToNearest R"
    and t: "js_mul R (Num 2)
              (Math_tan R (js_div R (js_div R (js_mul R fov_deg Math_PI) (Num 180)) (Num 2))) = Num t"
      "0 < t"
  shows "(maxDim (getSize R b1) = Num s1 \<and> maxDim (getSize R b2) = Num s2
            \<and> 0 < s1 \<and> s1 \<le> s2 \<and> 1 \<le> p
            \<longrightarrow> js_le (frameDist R b1 fov_deg (Num p)) (frameDist R b2 fov_deg (Num p)))
       \<and> (maxDim (getSize R b) = Num s \<and> 0 < s \<and> 1 \<le> p1 \<and> p1 \<le> p2
            \<longrightarrow> js_le (frameDist R b fov_deg (Num p1)) (frameDist R b fov_deg (Num p2)))"
proof -
  have quot: "js_le (Num 0) (js_div R (Num x) (Num t))" if "0 < x" for x
    using that t(2) by (simp add: rnd_nonneg [OF R])
  have quot_mono: "js_le (js_div R (Num x) (Num t)) (js_div R (Num y) (Num t))" if "x \<le> y" for x y
    using that t(2) by (simp add: rnd_mono [OF R] divide_right_mono)
  have size_mono: "js_le (frameDist R b1 fov_deg (Num p)) (frameDist R b2 fov_deg (Num p))"
    if "maxDim (getSize R b1) = Num s1" "maxDim (getSize R b2) = Num s2" "0 < s1" "s1 \<le> s2" "1 \<le> p"
  proof -
    have "0 < p"
      using that(5) by simp
    from js_mul_mono_left [OF R quot [OF that(3)] quot_mono [OF that(4)] this]
    show ?thesis
      by (simp add: frameDist_def Let_def that(1,2) t(1))
  qed
  have padding_mono: "js_le (frameDist R b fov_deg (Num p1)) (frameDist R b fov_deg (Num p2))"
    if "maxDim (getSize R b) = Num s" "0 < s" "1 \<le> p1" "p1 \<le> p2"
  proof -
    have "0 < p1"
      using that(3) by simp
    from js_mul_mono_right [OF R quot [OF that(2)] this that(4)]
    show ?thesis
      by (simp add: frameDist_def Let_def that(1) t(1))
  qed
  show ?thesis
    using size_mono padding_mono by blast
qed


lemma dbl_sum_sq_0: "js_add doubles (Num 25) (Num 0) = Num 25"
proof -
  have "binary64 ((25) + (0)) = Num (of_int 7036874417766400 * 2 powr (of_int 4 - 52))"
    by (rule binary64_normal) (simp_all add: rne_def powr_minus_divide)
  then show ?thesis
    by (simp add: doubles_def powr_minus_divide )
qed

lemma dbl_pan_x: "js_add doubles (Num 0) (Num 1) = Num 1"
proof -
  have "binary64 ((0) + (1)) = Num (of_int 4503599627370496 * 2 powr (of_int 0 - 52))"
    by (rule binary64_normal) (simp_all add: rne_def powr_minus_divide)
  then show ?thesis
    by (simp add: doubles_def powr_minus_divide )
qed

lemma dbl_zero_ops:
  "js_sub doubles (Num 0) (Num 0) = Num 0" "js_mul doubles (Num 0) (Num 0) = Num 0"
  "js_add doubles (Num 0) (Num 0) = Num 0" "js_add doubles (Num (- 1)) (Num 1) = Num 0"
  "js_mul doubles (Num 0) (Num (1 / 2)) = Num 0"
  by (simp_all add: js_sub_def doubles_def binary64_zero)

lemma dbl_rnd_small: "rnd doubles 0 = Num 0" "rnd doubles 1 = Num 1" "rnd doubles 50 = Num 50"
  using dbl_zero_ops(3) dbl_pan_x dbl_far by simp_all

lemma dbl_sqrt_25: "Math_sqrt doubles (Num 25) = Num 5"
proof -
  have s: "sqrt 25 = 5"
    by (rule real_sqrt_unique) simp_all
  have "binary64 5 = Num (of_int 5629499534213120 * 2 powr (of_int 2 - 52))"
    by (rule binary64_normal) (simp_all add: rne_def powr_minus_divide)
  then show ?thesis
    by (simp add: doubles_def s powr_minus_divide)
qed

section \<open>The framing routines on example inputs\<close>

text \<open>
  A box of size 3 by 4 by 0 at a field of view of 60 degrees: the largest extent is 4, the
  length of the size vector is 5.
\<close>

lemma getSize_flat: "getSize doubles (boxOfSize 3 4 0) = Vector3 (Num 3) (Num 4) (Num 0)"
  by (simp add: getSize_def isEmpty_def boxOfSize_def dbl_size_3 dbl_size_4 dbl_zero_ops)

lemma length_flat: "length_vec doubles (Vector3 (Num 3) (Num 4) (Num 0)) = Num 5"
  unfolding length_vec_def vec3.sel
  by (simp only: dbl_sq_3 dbl_sq_4 dbl_zero_ops dbl_sum_sq dbl_sum_sq_0 dbl_sqrt_25)

lemma viewerDist_flat: "viewerDist doubles (boxOfSize 3 4 0) (Num 60) = Num (6337876489387595 / 1125899906842624)"
  unfolding viewerDist_def Let_def getSize_flat length_flat
  by (simp only: dbl_fov_times_PI dbl_half_angle_viewer dbl_tan dbl_divisor dbl_fitDist
      dbl_viewerDist)

lemma frameDist_flat: "frameDist doubles (boxOfSize 3 4 0) (Num 60) (Num (5 / 4)) = Num (4875289607221227 / 1125899906842624)"
proof -
  have m: "maxDim (Vector3 (Num 3) (Num 4) (Num 0)) = Num 4"
    by (simp add: maxDim_def Math_max_def Math_max2_def)
  show ?thesis
    unfolding frameDist_def Let_def getSize_flat m
    by (simp only: dbl_fov_times_PI dbl_fov_radians dbl_half_angle dbl_tan dbl_divisor dbl_quot_4
        dbl_dist_4)
qed

theorem clip_planes_witness:
  "roundsToNearest doubles
   \<and> frameDist doubles (flatBounds exampleScene) (fov cam0) (Num (5 / 4)) = Num (4875289607221227 / 1125899906842624)
   \<and> 0 < (4875289607221227 / 1125899906842624 :: real)
   \<and> js_lt (near (fst (frameObject_assign doubles flatBounds exampleScene cam0 settled None)))
        (far (fst (frameObject_assign doubles flatBounds exampleScene cam0 settled None)))
   \<and> near (fst (frameObject doubles (panUpdate doubles) flatBounds exampleScene cam0 settled None))
       = js_div doubles (frameDist doubles (flatBounds exampleScene) (fov cam0) (Num (5 / 4)))
           (Num 100)
   \<and> far (fst (frameObject doubles (panUpdate doubles) flatBounds exampleScene cam0 settled None))
       = js_mul doubles (frameDist doubles (flatBounds exampleScene) (fov cam0) (Num (5 / 4)))
           (Num 100)"
proof -
  let ?r = "4875289607221227 / 1125899906842624 :: real"
  have f: "fov cam0 = Num 60"
    by (simp add: cam0_def)
  have d: "frameDist doubles (flatBounds exampleScene) (fov cam0) (Num (5 / 4)) = Num ?r"
    unfolding f flatBounds_def by (rule frameDist_flat)
  have pos: "0 < ?r"
    by simp
  have keeps: "\<forall>c k. near (fst (panUpdate doubles c k)) = near c
                 \<and> far (fst (panUpdate doubles c k)) = far c"
    by (simp add: panUpdate_clip_planes)
  note c = clip_planes [OF roundsToNearest_doubles, of flatBounds exampleScene cam0 None settled
      "panUpdate doubles", unfolded Let_def option.case]
  from c d pos
  have "js_lt (near (fst (frameObject_assign doubles flatBounds exampleScene cam0 settled None)))
          (far (fst (frameObject_assign doubles flatBounds exampleScene cam0 settled None)))"
    by blast
  moreover from c keeps
  have "near (fst (frameObject doubles (panUpdate doubles) flatBounds exampleScene cam0 settled None))
          = js_div doubles (frameDist doubles (flatBounds exampleScene) (fov cam0) (Num (5 / 4)))
              (Num 100)
        \<and> far (fst (frameObject doubles (panUpdate doubles) flatBounds exampleScene cam0 settled
                None))
          = js_mul doubles (frameDist doubles (flatBounds exampleScene) (fov cam0) (Num (5 / 4)))
              (Num 100)"
    by blast
  ultimately show ?thesis
    using roundsToNearest_doubles d pos by blast
qed

text \<open>
  C3, as the spec states it, fails for the viewer's \<^verbatim>\<open>frameObject\<close>: on the box of size 3
  by 4 by 0 it places the camera at about 5.629, where the formula of the claim, with the
  largest extent and the default padding, gives about 4.330.
\<close>

theorem viewer_distance_differs:
  "viewerDist doubles (boxOfSize 3 4 0) (Num 60)
     \<noteq> frameDist doubles (boxOfSize 3 4 0) (Num 60) (Num (5 / 4))"
  unfolding viewerDist_flat frameDist_flat by simp

text \<open>
  C4, as the spec states it, fails for the viewer's \<^verbatim>\<open>frameObject\<close>: on the same box its
  far clip plane is 50, ten times the length of the size vector, and not the hundredfold
  of the camera distance.
\<close>

theorem viewer_far_plane_differs:
  "far (fst (frameObject_viewer_assign doubles flatBounds exampleScene cam0 settled)) = Num 50
   \<and> js_mul doubles (viewerDist doubles (flatBounds exampleScene) (fov cam0)) (Num 100)
       = Num (4951466007334059 / 8796093022208)
   \<and> far (fst (frameObject_viewer_assign doubles flatBounds exampleScene cam0 settled))
       \<noteq> js_mul doubles (viewerDist doubles (flatBounds exampleScene) (fov cam0)) (Num 100)"
proof -
  have f: "fov cam0 = Num 60"
    by (simp add: cam0_def)
  have a: "far (fst (frameObject_viewer_assign doubles flatBounds exampleScene cam0 settled)) = Num 50"
    by (simp add: frameObject_viewer_assign_camera flatBounds_def getSize_flat length_flat
        dbl_rnd_small)
  have b: "js_mul doubles (viewerDist doubles (flatBounds exampleScene) (fov cam0)) (Num 100) = Num (4951466007334059 / 8796093022208)"
    unfolding f flatBounds_def viewerDist_flat by (rule dbl_dist_times_100)
  show ?thesis
    unfolding a b by simp
qed

lemma maxDim_size_1:
  "maxDim (getSize doubles (boxOfSize (2255740463359197 / 2251799813685248) (2255740463359197 / 2251799813685248) (2255740463359197 / 2251799813685248))) = Num (2255740463359197 / 2251799813685248)"
  by (simp add: getSize_def isEmpty_def boxOfSize_def dbl_size_1 maxDim_def Math_max_def
      Math_max2_def)

lemma maxDim_flat: "maxDim (getSize doubles (boxOfSize 3 4 0)) = Num 4"
  by (simp add: getSize_flat maxDim_def Math_max_def Math_max2_def)

theorem frameDist_nondecreasing_witness:
  "roundsToNearest doubles
   \<and> js_mul doubles (Num 2)
        (Math_tan doubles
          (js_div doubles (js_div doubles (js_mul doubles (Num 60) Math_PI) (Num 180)) (Num 2)))
       = Num (1300077228592327 / 1125899906842624)
   \<and> 0 < (1300077228592327 / 1125899906842624 :: real)
   \<and> maxDim (getSize doubles (boxOfSize (2255740463359197 / 2251799813685248) (2255740463359197 / 2251799813685248) (2255740463359197 / 2251799813685248))) = Num (2255740463359197 / 2251799813685248)
   \<and> maxDim (getSize doubles (boxOfSize 3 4 0)) = Num 4
   \<and> js_le (frameDist doubles (boxOfSize (2255740463359197 / 2251799813685248) (2255740463359197 / 2251799813685248) (2255740463359197 / 2251799813685248)) (Num 60) (Num (5 / 4)))
        (frameDist doubles (boxOfSize 3 4 0) (Num 60) (Num (5 / 4)))
   \<and> js_le (frameDist doubles (boxOfSize 3 4 0) (Num 60) (Num (5 / 4)))
        (frameDist doubles (boxOfSize 3 4 0) (Num 60) (Num 2))"
proof -
  let ?t = "1300077228592327 / 1125899906842624 :: real"
  have t: "js_mul doubles (Num 2)
        (Math_tan doubles
          (js_div doubles (js_div doubles (js_mul doubles (Num 60) Math_PI) (Num 180)) (Num 2)))
       = Num ?t"
    by (simp only: dbl_fov_times_PI dbl_fov_radians dbl_half_angle dbl_tan dbl_divisor)
  have pos: "0 < ?t"
    by simp
  note c = frameDist_nondecreasing [OF roundsToNearest_doubles t pos,
      of "boxOfSize (2255740463359197 / 2251799813685248) (2255740463359197 / 2251799813685248) (2255740463359197 / 2251799813685248)" "2255740463359197 / 2251799813685248" "boxOfSize 3 4 0" 4 "5 / 4"
         "boxOfSize 3 4 0" 4 "5 / 4" 2]
  from c maxDim_size_1 maxDim_flat
  have "js_le (frameDist doubles (boxOfSize (2255740463359197 / 2251799813685248) (2255740463359197 / 2251799813685248) (2255740463359197 / 2251799813685248)) (Num 60) (Num (5 / 4)))
          (frameDist doubles (boxOfSize 3 4 0) (Num 60) (Num (5 / 4)))"
    and "js_le (frameDist doubles (boxOfSize 3 4 0) (Num 60) (Num (5 / 4)))
          (frameDist doubles (boxOfSize 3 4 0) (Num 60) (Num 2))"
    by simp_all
  then show ?thesis
    using roundsToNearest_doubles t pos maxDim_size_1 maxDim_flat by blast
qed

text \<open>
  C7, as the spec states it, fails: two boxes whose largest extents are the neighbouring
  doubles 1.00175 and 1.0017500000000001 get the same distance, 1.0844261853013268, at a
  field of view of 60 degrees and a padding of 1.25.
\<close>

lemma frameDist_size_1:
  "frameDist doubles (boxOfSize (2255740463359197 / 2251799813685248) (2255740463359197 / 2251799813685248) (2255740463359197 / 2251799813685248)) (Num 60) (Num (5 / 4)) = Num (610477670504233 / 562949953421312)"
proof -
  have g: "getSize doubles (boxOfSize (2255740463359197 / 2251799813685248) (2255740463359197 / 2251799813685248) (2255740463359197 / 2251799813685248)) = Vector3 (Num (2255740463359197 / 2251799813685248)) (Num (2255740463359197 / 2251799813685248)) (Num (2255740463359197 / 2251799813685248))"
    by (simp add: getSize_def isEmpty_def boxOfSize_def dbl_size_1)
  have m: "maxDim (Vector3 (Num (2255740463359197 / 2251799813685248)) (Num (2255740463359197 / 2251799813685248)) (Num (2255740463359197 / 2251799813685248))) = Num (2255740463359197 / 2251799813685248)"
    by (simp add: maxDim_def Math_max_def Math_max2_def)
  show ?thesis
    unfolding frameDist_def Let_def g m
    by (simp only: dbl_fov_times_PI dbl_fov_radians dbl_half_angle dbl_tan dbl_divisor dbl_quot_1
        dbl_dist_1)
qed

lemma frameDist_size_2:
  "frameDist doubles (boxOfSize (4511480926718395 / 4503599627370496) (4511480926718395 / 4503599627370496) (4511480926718395 / 4503599627370496)) (Num 60) (Num (5 / 4)) = Num (610477670504233 / 562949953421312)"
proof -
  have g: "getSize doubles (boxOfSize (4511480926718395 / 4503599627370496) (4511480926718395 / 4503599627370496) (4511480926718395 / 4503599627370496)) = Vector3 (Num (4511480926718395 / 4503599627370496)) (Num (4511480926718395 / 4503599627370496)) (Num (4511480926718395 / 4503599627370496))"
    by (simp add: getSize_def isEmpty_def boxOfSize_def dbl_size_2)
  have m: "maxDim (Vector3 (Num (4511480926718395 / 4503599627370496)) (Num (4511480926718395 / 4503599627370496)) (Num (4511480926718395 / 4503599627370496))) = Num (4511480926718395 / 4503599627370496)"
    by (simp add: maxDim_def Math_max_def Math_max2_def)
  show ?thesis
    unfolding frameDist_def Let_def g m
    by (simp only: dbl_fov_times_PI dbl_fov_radians dbl_half_angle dbl_tan dbl_divisor dbl_quot_2
        dbl_dist_2)
qed

theorem frameDist_not_strictly_increasing:
  "js_lt (Num (2255740463359197 / 2251799813685248)) (Num (4511480926718395 / 4503599627370496))
   \<and> maxDim (getSize doubles (boxOfSize (2255740463359197 / 2251799813685248) (2255740463359197 / 2251799813685248) (2255740463359197 / 2251799813685248))) = Num (2255740463359197 / 2251799813685248)
   \<and> maxDim (getSize doubles (boxOfSize (4511480926718395 / 4503599627370496) (4511480926718395 / 4503599627370496) (4511480926718395 / 4503599627370496))) = Num (4511480926718395 / 4503599627370496)
   \<and> \<not> js_lt (frameDist doubles (boxOfSize (2255740463359197 / 2251799813685248) (2255740463359197 / 2251799813685248) (2255740463359197 / 2251799813685248)) (Num 60) (Num (5 / 4)))
          (frameDist doubles (boxOfSize (4511480926718395 / 4503599627370496) (4511480926718395 / 4503599627370496) (4511480926718395 / 4503599627370496)) (Num 60) (Num (5 / 4)))"
proof -
  have "maxDim (getSize doubles (boxOfSize (2255740463359197 / 2251799813685248) (2255740463359197 / 2251799813685248) (2255740463359197 / 2251799813685248))) = Num (2255740463359197 / 2251799813685248)"
    by (simp add: getSize_def isEmpty_def boxOfSize_def dbl_size_1 maxDim_def Math_max_def
        Math_max2_def)
  moreover have "maxDim (getSize doubles (boxOfSize (4511480926718395 / 4503599627370496) (4511480926718395 / 4503599627370496) (4511480926718395 / 4503599627370496))) = Num (4511480926718395 / 4503599627370496)"
    by (simp add: getSize_def isEmpty_def boxOfSize_def dbl_size_2 maxDim_def Math_max_def
        Math_max2_def)
  ultimately show ?thesis
    unfolding frameDist_size_1 frameDist_size_2 by simp
qed

text \<open>The example controller with a pan pending.\<close>

lemma getCenter_scene:
  "getCenter doubles (exampleBounds exampleScene) = Vector3 (Num 0) (Num 0) (Num 0)"
  by (simp add: exampleBounds_scene getCenter_def isEmpty_def cube_def add_def multiplyScalar_def
      dbl_rnd_small)

lemma frameObject_panUpdate:
  "snd (frameObject R (panUpdate R) setFromObject object cam ctl padding_arg)
     = \<lparr>target = add R (getCenter R (setFromObject object)) (internal ctl),
        internal = Vector3 (Num 0) (Num 0) (Num 0)\<rparr>"
  by (simp add: frameObject_update frameObject_assign_controls panUpdate_def Let_def)

lemma panning_once:
  "snd (frameObject doubles (panUpdate doubles) exampleBounds exampleScene cam0 panning None)
     = \<lparr>target = Vector3 (Num 1) (Num 0) (Num 0), internal = Vector3 (Num 0) (Num 0) (Num 0)\<rparr>"
  by (simp add: frameObject_panUpdate getCenter_scene panning_def add_def dbl_rnd_small)

lemma settled_once:
  assumes "internal ctl = Vector3 (Num 0) (Num 0) (Num 0)"
  shows "snd (frameObject doubles (panUpdate doubles) exampleBounds exampleScene cam ctl None)
           = settled"
  using assms
  by (simp add: frameObject_panUpdate getCenter_scene settled_def add_def dbl_rnd_small)

text \<open>
  C5, as the spec states it, fails: with a pan pending in the controller, the target after
  \<^verbatim>\<open>frameObject\<close> is (1, 0, 0) and not the centre of the box, (0, 0, 0).
\<close>

theorem frameObject_target_moved:
  "target (snd (frameObject doubles (panUpdate doubles) exampleBounds exampleScene cam0 panning None))
     \<noteq> getCenter doubles (exampleBounds exampleScene)"
  unfolding panning_once getCenter_scene by simp

text \<open>
  C8, as the spec states it, fails: with a pan pending, the first invocation leaves the
  target at (1, 0, 0) and the second, on what the first left, at (0, 0, 0).
\<close>

theorem frameObject_not_idempotent:
  "target (snd (frameObject doubles (panUpdate doubles) exampleBounds exampleScene
       (fst (frameObject doubles (panUpdate doubles) exampleBounds exampleScene cam0 panning None))
       (snd (frameObject doubles (panUpdate doubles) exampleBounds exampleScene cam0 panning None))
       None))
     \<noteq> target (snd (frameObject doubles (panUpdate doubles) exampleBounds exampleScene cam0 panning
           None))"
proof -
  have "internal (snd (frameObject doubles (panUpdate doubles) exampleBounds exampleScene cam0
      panning None)) = Vector3 (Num 0) (Num 0) (Num 0)"
    by (simp add: panning_once)
  from settled_once [OF this] show ?thesis
    by (simp add: panning_once settled_def)
qed

theorem frameObject_twice_witness:
  "(\<forall>c k. fov (fst (panUpdate doubles c k)) = fov c)
   \<and> internal (snd (frameObject doubles (panUpdate doubles) exampleBounds exampleScene cam0 settled
         None)) = internal settled
   \<and> frameObject doubles (panUpdate doubles) exampleBounds exampleScene
       (fst (frameObject doubles (panUpdate doubles) exampleBounds exampleScene cam0 settled None))
       (snd (frameObject doubles (panUpdate doubles) exampleBounds exampleScene cam0 settled None))
       None
     = frameObject doubles (panUpdate doubles) exampleBounds exampleScene cam0 settled None"
proof -
  have keeps: "\<forall>c k. fov (fst (panUpdate doubles c k)) = fov c"
    by (simp add: panUpdate_clip_planes)
  have same: "internal (snd (frameObject doubles (panUpdate doubles) exampleBounds exampleScene cam0
      settled None)) = internal settled"
    by (simp add: frameObject_panUpdate settled_def)
  from frameObject_twice [OF keeps, of doubles exampleBounds exampleScene cam0 settled None,
      unfolded Let_def] same
  show ?thesis
    using keeps by blast
qed

text \<open>
  C9, as the spec states it, fails: the same object, field of view, padding, camera and
  prior target give one target with a pan pending in the controller and another without.
\<close>

theorem frameObject_depends_on_controller:
  "target panning = target settled
   \<and> target (snd (frameObject doubles (panUpdate doubles) exampleBounds exampleScene cam0 panning None))
       \<noteq> target (snd (frameObject doubles (panUpdate doubles) exampleBounds exampleScene cam0 settled
             None))"
proof -
  have a: "snd (frameObject doubles (panUpdate doubles) exampleBounds exampleScene cam0 settled None)
             = settled"
    by (rule settled_once) (simp add: settled_def)
  show ?thesis
    unfolding a panning_once by (simp add: settled_def panning_def)
qed

section \<open>Properties of the loader\<close>

lemma nodes_traverse: "nodes (traverse f t) = map f (nodes t)"
proof (induction t)
  case (Object3D p cs)
  have "concat (map (nodes \<circ> traverse f) cs) = concat (map (map f \<circ> nodes) cs)"
    using Object3D.IH by (induction cs) simp_all
  then show ?case
    by (simp add: map_concat)
qed

lemma prepareMesh_prepared: "meshPrepared (prepareMesh n)"
  by (simp add: meshPrepared_def prepareMesh_def Let_def split: option.splits)

lemma assignEnvMap_prepared: "meshPrepared n \<Longrightarrow> meshPrepared (assignEnvMap env n)"
  by (auto simp: meshPrepared_def assignEnvMap_def split: option.splits)

lemma prepareMesh_envMap:
  "map_option envMap (material (prepareMesh n)) = map_option envMap (material n)"
  by (simp add: prepareMesh_def Let_def split: option.splits)

lemma root_obj_makeAsset: "root_obj (makeAsset R setFromObject g r) = r"
  by (simp add: makeAsset_def Let_def)

lemma load_Resolved_cases:
  assumes "fst (load R setFromObject fromEquirectangular model_url opts events) = Resolved a"
  shows "(\<exists>r. root_obj a = traverse prepareMesh r)
           \<or> (\<exists>r env. root_obj a = traverse (assignEnvMap env) (traverse prepareMesh r))"
  using assms
  by (fastforce simp: load_def Let_def root_obj_makeAsset
        split: prod.splits outcome.splits option.splits if_splits)

lemma chooseRoot_example: "chooseRoot exampleGltf = Some exampleScene"
  by (simp add: chooseRoot_def exampleGltf_def)

lemma prepared_example:
  "traverse prepareMesh exampleScene =
     Object3D exampleGroup
       [Object3D (exampleMesh\<lparr>castShadow := True, receiveShadow := True,
          material := Some \<lparr>map_tex = Some (exampleTexture\<lparr>colorSpace := SRGBColorSpace\<rparr>),
                             envMap = Some None\<rparr>\<rparr>) []]"
  by (simp add: exampleScene_def exampleGroup_def exampleMesh_def exampleTexture_def prepareMesh_def)

text \<open>
  C6. When \<^verbatim>\<open>load\<close> resolves, every mesh node of the root subtree it returns casts and
  receives shadows, and every mesh whose material carries a base-colour texture has that
  texture in the sRGB colour space.
\<close>

theorem load_prepares_meshes:
  assumes "fst (load R setFromObject fromEquirectangular model_url opts events) = Resolved a"
  shows "\<forall>n \<in> set (nodes (root_obj a)).
           isMesh n \<longrightarrow>
             castShadow n \<and> receiveShadow n
             \<and> (\<forall>m t. material n = Some m \<and> map_tex m = Some t \<and> isTexture t
                    \<longrightarrow> colorSpace t = SRGBColorSpace)"
proof -
  from load_Resolved_cases [OF assms]
  have "\<forall>n \<in> set (nodes (root_obj a)). meshPrepared n"
    by (auto simp: nodes_traverse prepareMesh_prepared assignEnvMap_prepared)
  then show ?thesis
    unfolding meshPrepared_def by blast
qed

theorem load_prepares_meshes_witness:
  "(case fst (load doubles exampleBounds examplePmrem ''model.glb'' exampleOptions [GltfLoaded exampleGltf]) of
      Resolved a \<Rightarrow>
        (let n = nodes (root_obj a) ! 1
         in isMesh n \<and> castShadow n \<and> receiveShadow n
            \<and> map_option (map_option colorSpace \<circ> map_tex) (material n) = Some (Some SRGBColorSpace))
    | _ \<Rightarrow> False)"
proof -
  let ?a = "makeAsset doubles exampleBounds exampleGltf (traverse prepareMesh exampleScene)"
  have h: "fst (load doubles exampleBounds examplePmrem ''model.glb'' exampleOptions [GltfLoaded exampleGltf])
             = Resolved ?a"
    by (simp add: load_def Let_def exampleOptions_def chooseRoot_example)
  have n: "nodes (root_obj ?a) ! 1 \<in> set (nodes (root_obj ?a))"
    by (simp add: root_obj_makeAsset prepared_example)
  have m: "isMesh (nodes (root_obj ?a) ! 1)"
    "material (nodes (root_obj ?a) ! 1)
       = Some \<lparr>map_tex = Some (exampleTexture\<lparr>colorSpace := SRGBColorSpace\<rparr>), envMap = Some None\<rparr>"
    by (simp_all add: root_obj_makeAsset prepared_example exampleMesh_def)
  from load_prepares_meshes [OF h] n m(1)
  have "castShadow (nodes (root_obj ?a) ! 1) \<and> receiveShadow (nodes (root_obj ?a) ! 1)
        \<and> (\<forall>mat t. material (nodes (root_obj ?a) ! 1) = Some mat \<and> map_tex mat = Some t \<and> isTexture t
               \<longrightarrow> colorSpace t = SRGBColorSpace)"
    by blast
  with m show ?thesis
    unfolding h by (simp add: Let_def exampleTexture_def)
qed

text \<open>
  C1, as the code has it. When the primary load has resolved with a scene root, an
  environment map was asked for, and the load of the environment map fails, the promise of
  \<^verbatim>\<open>load\<close> is rejected with the error of the environment-map load: no asset is returned.
  The scene root has been through the first traversal only, and no material of it has a
  changed \<^verbatim>\<open>envMap\<close> property.
\<close>

theorem load_env_failure:
  assumes "awaitGltf (signal opts \<noteq> None) events = (Resolved g, rest)"
    and "chooseRoot g = Some r"
    and "envMapHDR opts = Some u" and "u \<noteq> []"
    and "awaitHdr rest = Rejected e"
  shows "load R setFromObject fromEquirectangular model_url opts events
           = (Rejected e, Some (traverse prepareMesh r))
         \<and> map (\<lambda>n. map_option envMap (material n)) (nodes (traverse prepareMesh r))
             = map (\<lambda>n. map_option envMap (material n)) (nodes r)"
  using assms by (simp add: load_def Let_def nodes_traverse prepareMesh_envMap)

theorem load_env_failure_witness:
  "awaitGltf (signal \<lparr>signal = None, envMapHDR = Some ''studio.hdr''\<rparr> \<noteq> None)
       [GltfLoaded exampleGltf, HdrError ''404'']
     = (Resolved exampleGltf, [HdrError ''404''])
   \<and> chooseRoot exampleGltf = Some exampleScene
   \<and> envMapHDR \<lparr>signal = None, envMapHDR = Some ''studio.hdr''\<rparr> = Some ''studio.hdr''
   \<and> ''studio.hdr'' \<noteq> []
   \<and> awaitHdr [HdrError ''404''] = Rejected (EnvMapFailed ''404'')
   \<and> load doubles exampleBounds examplePmrem ''model.glb'' \<lparr>signal = None, envMapHDR = Some ''studio.hdr''\<rparr>
         [GltfLoaded exampleGltf, HdrError ''404'']
       = (Rejected (EnvMapFailed ''404''), Some (traverse prepareMesh exampleScene))
   \<and> map (\<lambda>n. map_option envMap (material n)) (nodes (traverse prepareMesh exampleScene))
       = map (\<lambda>n. map_option envMap (material n)) (nodes exampleScene)"
proof -
  let ?opts = "\<lparr>signal = None, envMapHDR = Some ''studio.hdr''\<rparr>"
  have h1: "awaitGltf (signal ?opts \<noteq> None) [GltfLoaded exampleGltf, HdrError ''404'']
              = (Resolved exampleGltf, [HdrError ''404''])"
    by simp
  have h3: "envMapHDR ?opts = Some ''studio.hdr''"
    by simp
  have h4: "''studio.hdr'' \<noteq> []"
    by simp
  have h5: "awaitHdr [HdrError ''404''] = Rejected (EnvMapFailed ''404'')"
    by simp
  show ?thesis
    using h1 chooseRoot_example h3 h4 h5
      load_env_failure [OF h1 chooseRoot_example h3 h4 h5, of doubles exampleBounds examplePmrem "''model.glb''"]
    by blast
qed

text \<open>
  C1, as the spec states it, fails: with the primary load resolved and the environment-map
  load failed, \<^verbatim>\<open>load\<close> does not resolve with the asset.
\<close>

theorem load_env_failure_rejects:
  "fst (load doubles exampleBounds examplePmrem ''model.glb'' \<lparr>signal = None, envMapHDR = Some ''studio.hdr''\<rparr>
         [GltfLoaded exampleGltf, HdrError ''404''])
     = Rejected (EnvMapFailed ''404'')"
  by (simp add: load_def Let_def chooseRoot_example)

text \<open>
  Cancellation. When the caller's signal dispatches its \<^verbatim>\<open>abort\<close> event before the
  backend loader has called back, \<^verbatim>\<open>load\<close> is rejected with the cancellation error.
\<close>

lemma awaitGltf_abort_first:
  assumes "\<forall>e \<in> set pre. \<not> isBackendEvent e"
  shows "fst (awaitGltf True (pre @ AbortEvent # post)) = Rejected Cancelled"
  using assms
proof (induction pre)
  case Nil
  show ?case by simp
next
  case (Cons e pre)
  then show ?case by (cases e) simp_all
qed

lemma load_cancelled_before_backend:
  assumes "signal opts = Some sg"
    and "\<forall>e \<in> set pre. \<not> isBackendEvent e"
  shows "load R setFromObject fromEquirectangular model_url opts (pre @ AbortEvent # post)
           = (Rejected Cancelled, None)"
proof -
  obtain rest where "awaitGltf True (pre @ AbortEvent # post) = (Rejected Cancelled, rest)"
    using awaitGltf_abort_first [OF assms(2), of post]
    by (cases "awaitGltf True (pre @ AbortEvent # post)") simp
  then show ?thesis
    using assms(1) by (simp add: load_def)
qed

text \<open>
  C2, at a signal that is already aborted when \<^verbatim>\<open>load\<close> is invoked. The source attaches
  an \<^verbatim>\<open>abort\<close> listener and never reads \<^verbatim>\<open>signal.aborted\<close>; the event was dispatched
  before the listener existed, so the backend's callback settles the promise: \<^verbatim>\<open>load\<close>
  resolves with the asset, or is rejected with the backend's error.
\<close>

theorem load_already_aborted_signal:
  "fst (load doubles exampleBounds examplePmrem ''model.glb''
          \<lparr>signal = Some \<lparr>aborted = True\<rparr>, envMapHDR = None\<rparr> [GltfLoaded exampleGltf])
     = Resolved (makeAsset doubles exampleBounds exampleGltf (traverse prepareMesh exampleScene))
   \<and> fst (load doubles exampleBounds examplePmrem ''model.glb''
          \<lparr>signal = Some \<lparr>aborted = True\<rparr>, envMapHDR = None\<rparr> [GltfError ''404''])
     = Rejected (LoadFailed ''404'')"
  by (simp add: load_def Let_def chooseRoot_example)

section \<open>Properties of the viewer\<close>

text \<open>
  A name for which \<^verbatim>\<open>VARIANTS[name]\<close> is undefined, that is, neither a key of the table
  nor a member inherited from \<^verbatim>\<open>Object.prototype\<close>, leaves the whole state as it was
  and issues no loader call.
\<close>

lemma setVariant_undefined_name:
  assumes "name \<notin> fst ` set VARIANTS" and "name \<notin> set Object_prototype"
  shows "setVariant R update setFromObject response name s = (Resolved (), s)"
proof -
  have "map_of VARIANTS name = None"
    using assms(1) by (simp add: map_of_eq_None_iff)
  then show ?thesis
    using assms(2) by (simp add: setVariant_def lookup_def)
qed

lemma setVariant_part_000_undefined_name:
  assumes "name \<notin> fst ` set VARIANTS_part_000" and "name \<notin> set Object_prototype"
  shows "setVariant_part_000 R update setFromObject response name s = (Resolved (), s)"
proof -
  have "map_of VARIANTS_part_000 name = None"
    using assms(1) by (simp add: map_of_eq_None_iff)
  then show ?thesis
    using assms(2) by (simp add: setVariant_part_000_def lookup_def)
qed

lemma lookup_toString:
  "lookup VARIANTS ''toString'' = Inherited" "lookup VARIANTS_part_000 ''toString'' = Inherited"
  by (simp_all add: lookup_def VARIANTS_def VARIANTS_part_000_def Object_prototype_def)

text \<open>
  C10, at the name \<^verbatim>\<open>toString\<close>, which is in neither variants table. The property read
  finds the function inherited from \<^verbatim>\<open>Object.prototype\<close>, the guard \<^verbatim>\<open>if (!cfg) return\<close>
  lets it pass, and \<^verbatim>\<open>setVariant\<close> removes the current model from the scene, clears the
  \<^verbatim>\<open>currentModel\<close> slot and calls the loader with an undefined URL.
\<close>

theorem setVariant_inherited_name:
  "''toString'' \<notin> fst ` set VARIANTS \<and> ''toString'' \<notin> fst ` set VARIANTS_part_000
   \<and> setVariant doubles (panUpdate doubles) exampleBounds Pending ''toString'' exampleViewer
       = (Pending, exampleViewer\<lparr>scene_children := [], currentModel := None, loaderCalls := [None]\<rparr>)
   \<and> setVariant_part_000 doubles (panUpdate doubles) exampleBounds Pending ''toString'' exampleViewer
       = (Pending, exampleViewer\<lparr>scene_children := [], currentModel := None, loaderCalls := [None]\<rparr>)"
proof -
  have "''toString'' \<notin> fst ` set VARIANTS" "''toString'' \<notin> fst ` set VARIANTS_part_000"
    by (simp_all add: VARIANTS_def VARIANTS_part_000_def)
  moreover have "fetchModel Inherited ''toString'' Pending (removeCurrent exampleViewer)
      = (Pending, exampleViewer\<lparr>scene_children := [], currentModel := None, loaderCalls := [None]\<rparr>)"
    by (simp add: fetchModel_def removeCurrent_def exampleViewer_def)
  ultimately show ?thesis
    by (simp add: setVariant_def setVariant_part_000_def lookup_toString)
qed

end
